theory Spec2Isabelle
  imports Complex_Main
begin

section \<open>Solar-system simulation: data model\<close>

text \<open>
  The program is a single Python module, \<^verbatim>\<open>solar_system.py\<close>. Python's \<^verbatim>\<open>float\<close> is
  idealised as \<^typ>\<open>real\<close> throughout: rounding, overflow, NaN and signed zeros are not
  modelled, so every statement below is about the arithmetic the code writes down, not
  about its IEEE-754 evaluation. Python's \<^verbatim>\<open>int\<close> is \<^typ>\<open>int\<close>.

  A \<^verbatim>\<open>CelestialBody\<close> holds a reference to its parent object. The scene keeps all
  bodies in the list \<^verbatim>\<open>SolarSystem.bodies\<close>; the model stores a body's parent as the
  index of the parent in that list (\<open>None\<close> for Python's \<^verbatim>\<open>None\<close>), and every method
  that mutates a body takes the list and the body's index and returns the new list.
  The fields \<^verbatim>\<open>color\<close>, \<^verbatim>\<open>facts\<close>, \<^verbatim>\<open>label_surface\<close> and \<^verbatim>\<open>facts_surface\<close> are read
  and written only by the text and circle drawing code, which is not modelled.
\<close>

datatype py_error = ValueError | ZeroDivisionError

text \<open>
  A \<^verbatim>\<open>pygame.Surface\<close> is modelled by what the code does to it: its size, and the
  closed polyline drawn on it (colour, points, line width). A \<^verbatim>\<open>pygame.Rect\<close> is its
  four integers.
\<close>

record Surface =
  surf_width :: int
  surf_height :: int
  surf_lines :: "(real \<times> real) list"
  surf_line_width :: int

record Rect =
  rect_left :: int
  rect_top :: int
  rect_width :: int
  rect_height :: int

record CelestialBody =
  x :: real
  y :: real
  radius :: real
  semi_major_axis :: real
  eccentricity :: real
  angle :: real
  base_orbit_speed :: real
  orbit_speed :: real
  parent :: "nat option"
  name :: string
  mass :: real
  orbit_surface :: "Surface option"
  orbit_rect :: "Rect option"
  orbit_points :: "(real \<times> real) list option"
  one_minus_e2 :: real
  last_zoom :: real
  last_width :: int
  last_height :: int
  last_view_x :: real
  last_view_y :: real

record SolarSystem =
  bodies :: "CelestialBody list"
  stars :: "nat list"
  planets :: "nat list"
  moons :: "nat list"
  time_factor :: real

section \<open>Library functions of Python's \<^verbatim>\<open>math\<close> module\<close>

text \<open>
  \<^verbatim>\<open>a % b\<close> on floats with a positive divisor: the result has the sign of the divisor,
  \<open>a - b * floor (a / b)\<close>. The exact value lies in \<open>[0, b)\<close>; the float operation rounds
  it, and for a tiny negative dividend the rounded result is the divisor \<open>b\<close> itself. No
  statement below relies on the result being strictly below the divisor: where an angle
  has to lie in \<open>[0, 2 * pi)\<close>, that is a hypothesis.
\<close>

definition py_mod :: "real \<Rightarrow> real \<Rightarrow> real" where
  "py_mod a b = a - b * of_int \<lfloor>a / b\<rfloor>"

text \<open>
  \<^verbatim>\<open>math.atan2(y, x)\<close>: the angle of the point \<open>(x, y)\<close> in \<open>(-pi, pi]\<close>, and \<open>0\<close> at
  the origin.
\<close>

definition atan2 :: "real \<Rightarrow> real \<Rightarrow> real" where
  "atan2 v u =
     (if 0 < u then arctan (v / u)
      else if u < 0 then (if 0 \<le> v then arctan (v / u) + pi else arctan (v / u) - pi)
      else if 0 < v then pi / 2
      else if v < 0 then - (pi / 2)
      else 0)"

text \<open>\<^verbatim>\<open>int(f)\<close> on a float truncates towards zero.\<close>

definition py_int :: "real \<Rightarrow> int" where
  "py_int f = (if 0 \<le> f then \<lfloor>f\<rfloor> else \<lceil>f\<rceil>)"

section \<open>\<^verbatim>\<open>CelestialBody.update\<close>\<close>

text \<open>
  The loop \<^verbatim>\<open>for _ in range(5): E = M + e * sin(E)\<close>, as a recursion on the number of
  iterations still to run, and the solve that starts it at \<open>E = M\<close>.
\<close>

fun kepler_loop :: "nat \<Rightarrow> real \<Rightarrow> real \<Rightarrow> real \<Rightarrow> real" where
  "kepler_loop 0 M e E = E"
| "kepler_loop (Suc n) M e E = kepler_loop n M e (M + e * sin E)"

definition kepler_solve :: "real \<Rightarrow> real \<Rightarrow> real" where
  "kepler_solve M e = kepler_loop 5 M e M"

definition true_anomaly :: "real \<Rightarrow> real \<Rightarrow> real" where
  "true_anomaly e E = 2 * atan2 (sqrt (1 + e) * sin (E / 2)) (sqrt (1 - e) * cos (E / 2))"

text \<open>
  \<^verbatim>\<open>update\<close> first advances the angle. A body with a parent then solves for its
  position; \<^verbatim>\<open>math.sqrt\<close> raises \<^verbatim>\<open>ValueError\<close> on a negative argument and the float
  division raises \<^verbatim>\<open>ZeroDivisionError\<close> on a zero divisor.
\<close>

definition CelestialBody_update :: "CelestialBody list \<Rightarrow> nat \<Rightarrow> py_error + CelestialBody list" where
  "CelestialBody_update bs i =
     (let self = (bs ! i)\<lparr>angle := py_mod (angle (bs ! i) + orbit_speed (bs ! i)) (2 * pi)\<rparr>
      in case parent self of
           None \<Rightarrow> Inr (bs[i := self])
         | Some p \<Rightarrow>
             (let M = angle self;
                  E = kepler_solve M (eccentricity self)
              in if 1 + eccentricity self < 0 then Inl ValueError
                 else if 1 - eccentricity self < 0 then Inl ValueError
                 else
                   (let nu = true_anomaly (eccentricity self) E
                    in if 1 + eccentricity self * cos nu = 0 then Inl ZeroDivisionError
                       else
                         (let r = semi_major_axis self * one_minus_e2 self
                                    / (1 + eccentricity self * cos nu);
                              bs1 = bs[i := self];
                              self1 = self\<lparr>x := x (bs1 ! p) + r * cos nu\<rparr>;
                              bs2 = bs1[i := self1];
                              self2 = self1\<lparr>y := y (bs2 ! p) + r * sin nu\<rparr>
                          in Inr (bs2[i := self2])))))"

section \<open>\<^verbatim>\<open>SolarSystem.update\<close>\<close>

text \<open>
  \<^verbatim>\<open>for body in self.bodies\<close>: the list is walked by index, in insertion order. A body
  with a parent gets its speed rescaled from the base speed before it is updated.
\<close>

fun update_loop :: "nat list \<Rightarrow> real \<Rightarrow> CelestialBody list \<Rightarrow> py_error + CelestialBody list" where
  "update_loop [] tf bs = Inr bs"
| "update_loop (i # js) tf bs =
     (let bs1 = (case parent (bs ! i) of
                   None \<Rightarrow> bs
                 | Some p \<Rightarrow> bs[i := (bs ! i)\<lparr>orbit_speed := base_orbit_speed (bs ! i) * tf\<rparr>])
      in case CelestialBody_update bs1 i of
           Inl err \<Rightarrow> Inl err
         | Inr bs2 \<Rightarrow> update_loop js tf bs2)"

definition SolarSystem_update :: "SolarSystem \<Rightarrow> py_error + SolarSystem" where
  "SolarSystem_update s =
     (case update_loop [0..<length (bodies s)] (time_factor s) (bodies s) of
        Inl err \<Rightarrow> Inl err
      | Inr bs \<Rightarrow> Inr (s\<lparr>bodies := bs\<rparr>))"

section \<open>Scene construction: \<^verbatim>\<open>add_star\<close>, \<^verbatim>\<open>add_planet\<close>, \<^verbatim>\<open>add_moon\<close>\<close>

text \<open>\<^verbatim>\<open>SolarSystem.__init__\<close>.\<close>

definition SolarSystem_init :: SolarSystem where
  "SolarSystem_init = \<lparr>bodies = [], stars = [], planets = [], moons = [], time_factor = 1\<rparr>"

text \<open>
  The dataclass constructor, with the defaults of the fields the three callers leave out.
\<close>

definition new_body ::
  "real \<Rightarrow> real \<Rightarrow> real \<Rightarrow> real \<Rightarrow> real \<Rightarrow> real \<Rightarrow> real \<Rightarrow> real \<Rightarrow> nat option \<Rightarrow> string \<Rightarrow> real \<Rightarrow> real
     \<Rightarrow> CelestialBody" where
  "new_body x0 y0 rad sma ecc ang base_speed speed par nm ms ome2 =
     \<lparr>x = x0, y = y0, radius = rad, semi_major_axis = sma, eccentricity = ecc, angle = ang,
      base_orbit_speed = base_speed, orbit_speed = speed, parent = par, name = nm, mass = ms,
      orbit_surface = None, orbit_rect = None, orbit_points = None, one_minus_e2 = ome2,
      last_zoom = 0, last_width = 0, last_height = 0, last_view_x = 0, last_view_y = 0\<rparr>"

text \<open>
  Each constructor appends the new body and returns it; the model returns the new scene
  and the body's index. The argument \<open>rnd\<close> is the value \<^verbatim>\<open>random.uniform(0, 2 * math.pi)\<close>
  returned at the call.
\<close>

definition add_star :: "SolarSystem \<Rightarrow> real \<Rightarrow> real \<Rightarrow> real \<Rightarrow> string \<Rightarrow> real \<Rightarrow> SolarSystem \<times> nat" where
  "add_star s x0 y0 rad nm ms =
     (let star = new_body x0 y0 rad 0 0 0 0 0 None nm ms 1;
          k = length (bodies s)
      in (s\<lparr>bodies := bodies s @ [star], stars := stars s @ [k]\<rparr>, k))"

definition add_planet ::
  "SolarSystem \<Rightarrow> nat \<Rightarrow> real \<Rightarrow> real \<Rightarrow> real \<Rightarrow> real \<Rightarrow> string \<Rightarrow> real \<Rightarrow> real \<Rightarrow> SolarSystem \<times> nat" where
  "add_planet s p sma rad speed ecc nm ms rnd =
     (let ang = rnd;
          ome2 = 1 - ecc * ecc;
          planet = new_body (x (bodies s ! p)) (y (bodies s ! p)) rad sma ecc ang speed speed
                     (Some p) nm ms ome2;
          k = length (bodies s)
      in (s\<lparr>bodies := bodies s @ [planet], planets := planets s @ [k]\<rparr>, k))"

definition add_moon ::
  "SolarSystem \<Rightarrow> nat \<Rightarrow> real \<Rightarrow> real \<Rightarrow> real \<Rightarrow> real \<Rightarrow> string \<Rightarrow> real \<Rightarrow> real \<Rightarrow> SolarSystem \<times> nat" where
  "add_moon s p sma rad speed ecc nm ms rnd =
     (let ang = rnd;
          ome2 = 1 - ecc * ecc;
          min_orbit = (if name (bodies s ! p) \<noteq> ''Sun'' then radius (bodies s ! p) * 2 else sma);
          sma1 = max sma min_orbit;
          moon = new_body (x (bodies s ! p)) (y (bodies s ! p)) rad sma1 ecc ang speed speed
                   (Some p) nm ms ome2;
          k = length (bodies s)
      in (s\<lparr>bodies := bodies s @ [moon], moons := moons s @ [k]\<rparr>, k))"

section \<open>Angular speeds in \<^verbatim>\<open>create_real_solar_system\<close>\<close>

text \<open>
  Python's float division raises \<^verbatim>\<open>ZeroDivisionError\<close> on a zero divisor.
\<close>

definition py_truediv :: "real \<Rightarrow> real \<Rightarrow> py_error + real" where
  "py_truediv a b = (if b = 0 then Inl ZeroDivisionError else Inr (a / b))"


definition base_frames :: real where
  "base_frames = 3600"

definition base_speed :: real where
  "base_speed = 2 * pi / base_frames"



section \<open>The camera\<close>

text \<open>
  The first two lines of \<^verbatim>\<open>CelestialBody.draw\<close> project the body to the screen;
  \<^verbatim>\<open>width // 2\<close> is the floor division of integers.
\<close>

definition scaled_pos :: "CelestialBody \<Rightarrow> real \<Rightarrow> real \<Rightarrow> real \<Rightarrow> int \<Rightarrow> int \<Rightarrow> real \<times> real" where
  "scaled_pos self zoom view_x view_y width height =
     ((x self - view_x) * zoom + of_int (width div 2),
      (y self - view_y) * zoom + of_int (height div 2))"

text \<open>
  The \<^verbatim>\<open>MOUSEMOTION\<close> handler of \<^verbatim>\<open>main\<close> while dragging: the pointer moved from
  \<open>last_mouse_pos\<close> to \<open>pos\<close>; the result is the new \<open>(view_x, view_y)\<close>.
\<close>

definition mouse_motion :: "real \<Rightarrow> real \<times> real \<Rightarrow> int \<times> int \<Rightarrow> int \<times> int \<Rightarrow> py_error + real \<times> real" where
  "mouse_motion zoom view last_mouse_pos pos =
     (let dx = fst pos - fst last_mouse_pos;
          dy = snd pos - snd last_mouse_pos
      in case py_truediv (of_int dx) zoom of
           Inl err \<Rightarrow> Inl err
         | Inr wx \<Rightarrow>
             (case py_truediv (of_int dy) zoom of
                Inl err \<Rightarrow> Inl err
              | Inr wy \<Rightarrow> Inr (fst view - wx, snd view - wy)))"

text \<open>The \<^verbatim>\<open>K_i\<close> and \<^verbatim>\<open>K_o\<close> handlers.\<close>

definition zoom_in :: "real \<Rightarrow> real" where
  "zoom_in zoom = max (5 / 100) (min (zoom * (11 / 10)) 5)"

definition zoom_out :: "real \<Rightarrow> real" where
  "zoom_out zoom = max (5 / 100) (min (zoom * (909 / 1000)) 5)"

section \<open>\<^verbatim>\<open>CelestialBody.update_orbit_surface\<close>\<close>

text \<open>
  The calls into pygame that create or draw on a surface, in the order they are made.
  The method returns nothing; the model returns the new list of bodies together with
  these calls, so that a rebuild can be counted.
\<close>

datatype pygame_call =
  Surface_new int int
  | Rect_new int int int int
  | draw_lines "(real \<times> real) list" int

definition bind_err :: "py_error + 'a \<Rightarrow> ('a \<Rightarrow> py_error + 'b) \<Rightarrow> py_error + 'b" where
  "bind_err m f = (case m of Inl err \<Rightarrow> Inl err | Inr v \<Rightarrow> f v)"

text \<open>\<^verbatim>\<open>min\<close> and \<^verbatim>\<open>max\<close> of a sequence raise \<^verbatim>\<open>ValueError\<close> when it is empty.\<close>

definition py_min :: "real list \<Rightarrow> py_error + real" where
  "py_min vs = (case vs of [] \<Rightarrow> Inl ValueError | v # ws \<Rightarrow> Inr (foldl min v ws))"

definition py_max :: "real list \<Rightarrow> py_error + real" where
  "py_max vs = (case vs of [] \<Rightarrow> Inl ValueError | v # ws \<Rightarrow> Inr (foldl max v ws))"

text \<open>The loop \<^verbatim>\<open>for t in range(30)\<close> that samples the ellipse.\<close>

definition orbit_samples :: "real \<Rightarrow> real \<Rightarrow> (real \<times> real) list" where
  "orbit_samples a b =
     map (\<lambda>t. (a * cos (2 * pi * real t / 29), b * sin (2 * pi * real t / 29))) [0..<30]"

text \<open>
  The part of the method after its two early returns: it stores the camera key, then
  resamples, projects, measures and draws. \<^verbatim>\<open>math.sqrt\<close> raises on a negative
  \<open>one_minus_e2\<close>, after the key has been stored.
\<close>

definition rebuild_orbit_surface ::
  "CelestialBody list \<Rightarrow> nat \<Rightarrow> nat \<Rightarrow> real \<Rightarrow> real \<Rightarrow> real \<Rightarrow> int \<Rightarrow> int
     \<Rightarrow> py_error + CelestialBody list \<times> pygame_call list" where
  "rebuild_orbit_surface bs i p zoom view_x view_y width height =
     (let self = (bs ! i)\<lparr>last_zoom := zoom, last_width := width, last_height := height,
                            last_view_x := view_x, last_view_y := view_y\<rparr>
      in if one_minus_e2 self < 0 then Inl ValueError
         else
           (let b = semi_major_axis self * sqrt (one_minus_e2 self);
                pts = orbit_samples (semi_major_axis self) b;
                self1 = self\<lparr>orbit_points := Some pts\<rparr>;
                bs1 = bs[i := self1];
                parent_x = x (bs1 ! p);
                parent_y = y (bs1 ! p);
                screen_points =
                  map (\<lambda>(px, py). ((px + parent_x - view_x) * zoom + of_int (width div 2),
                                     (py + parent_y - view_y) * zoom + of_int (height div 2))) pts;
                xs = map fst screen_points;
                ys = map snd screen_points
            in bind_err (py_min xs) (\<lambda>min_x. bind_err (py_max xs) (\<lambda>max_x.
               bind_err (py_min ys) (\<lambda>min_y. bind_err (py_max ys) (\<lambda>max_y.
                 (let box_width = max 1 (min (py_int (max_x - min_x) + 2) width);
                      box_height = max 1 (min (py_int (max_y - min_y) + 2) height);
                      line_width = (if semi_major_axis self1 > 10 then 2 else 1);
                      local_points = map (\<lambda>(px, py). (px - min_x, py - min_y)) screen_points;
                      surface = \<lparr>surf_width = box_width, surf_height = box_height,
                                 surf_lines = local_points, surf_line_width = line_width\<rparr>;
                      rect = \<lparr>rect_left = py_int min_x, rect_top = py_int min_y,
                              rect_width = box_width, rect_height = box_height\<rparr>;
                      self2 = self1\<lparr>orbit_surface := Some surface, orbit_rect := Some rect\<rparr>
                  in Inr (bs1[i := self2],
                          [Surface_new box_width box_height,
                           Rect_new (py_int min_x) (py_int min_y) box_width box_height,
                           draw_lines local_points line_width]))))))))"

text \<open>
  The method itself: nothing for a body without a parent, nothing when the cached
  surface is there and the camera is within the thresholds of the stored key. A
  \<^verbatim>\<open>pygame.Surface\<close> is taken to be truthy, as an object without \<^verbatim>\<open>__bool__\<close> and
  \<^verbatim>\<open>__len__\<close> is.
\<close>

definition update_orbit_surface ::
  "CelestialBody list \<Rightarrow> nat \<Rightarrow> real \<Rightarrow> real \<Rightarrow> real \<Rightarrow> int \<Rightarrow> int
     \<Rightarrow> py_error + CelestialBody list \<times> pygame_call list" where
  "update_orbit_surface bs i zoom view_x view_y width height =
     (case parent (bs ! i) of
        None \<Rightarrow> Inr (bs, [])
      | Some p \<Rightarrow>
          if orbit_surface (bs ! i) \<noteq> None \<and>
             \<bar>zoom - last_zoom (bs ! i)\<bar> < 1 / 100 \<and>
             width = last_width (bs ! i) \<and>
             height = last_height (bs ! i) \<and>
             \<bar>view_x - last_view_x (bs ! i)\<bar> < 1 \<and>
             \<bar>view_y - last_view_y (bs ! i)\<bar> < 1
          then Inr (bs, [])
          else rebuild_orbit_surface bs i p zoom view_x view_y width height)"

section \<open>The frame loop\<close>


text \<open>
  A run of unpaused frames. Between two frames the key handlers may assign a new
  \<^verbatim>\<open>time_factor\<close>; the list gives the value in force at each frame.
\<close>

fun ticks :: "real list \<Rightarrow> SolarSystem \<Rightarrow> py_error + SolarSystem" where
  "ticks [] s = Inr s"
| "ticks (tf # tfs) s =
     (case SolarSystem_update (s\<lparr>time_factor := tf\<rparr>) of
        Inl err \<Rightarrow> Inl err
      | Inr s' \<Rightarrow> ticks tfs s')"

section \<open>Predicates used in the statements\<close>

text \<open>The fields that describe a body and its orbit, as opposed to its phase and position.\<close>

definition keeps_elements :: "CelestialBody \<Rightarrow> CelestialBody \<Rightarrow> bool" where
  "keeps_elements b b' \<longleftrightarrow>
     base_orbit_speed b' = base_orbit_speed b \<and> semi_major_axis b' = semi_major_axis b \<and>
     eccentricity b' = eccentricity b \<and> radius b' = radius b \<and> parent b' = parent b \<and>
     one_minus_e2 b' = one_minus_e2 b \<and> name b' = name b"

text \<open>
  The three quantities \<^verbatim>\<open>CelestialBody.update\<close> computes for a body: the advanced mean
  anomaly, and the true anomaly and radius at a mean anomaly \<open>M\<close>.
\<close>

definition next_angle :: "CelestialBody \<Rightarrow> real" where
  "next_angle b = py_mod (angle b + orbit_speed b) (2 * pi)"

definition orbit_nu :: "CelestialBody \<Rightarrow> real \<Rightarrow> real" where
  "orbit_nu b M = true_anomaly (eccentricity b) (kepler_solve M (eccentricity b))"

definition orbit_r :: "CelestialBody \<Rightarrow> real \<Rightarrow> real" where
  "orbit_r b M = semi_major_axis b * one_minus_e2 b / (1 + eccentricity b * cos (orbit_nu b M))"

text \<open>The Euclidean distance between a body and its parent, in a list of bodies.\<close>

definition distance_to_parent :: "CelestialBody list \<Rightarrow> nat \<Rightarrow> real" where
  "distance_to_parent bs i =
     (case parent (bs ! i) of
        None \<Rightarrow> 0
      | Some p \<Rightarrow> sqrt ((x (bs ! i) - x (bs ! p))\<^sup>2 + (y (bs ! i) - y (bs ! p))\<^sup>2))"



text \<open>
  A body is placed when it sits where \<^verbatim>\<open>update\<close> puts a body of its angle relative to
  its parent's position in the list; nothing is asked of the angle itself, and nothing of
  a body without a parent.
\<close>

definition placed_at :: "CelestialBody list \<Rightarrow> nat \<Rightarrow> bool" where
  "placed_at bs i \<longleftrightarrow>
     (case parent (bs ! i) of
        None \<Rightarrow> True
      | Some p \<Rightarrow>
          p \<noteq> i \<and> - 1 \<le> eccentricity (bs ! i) \<and> eccentricity (bs ! i) \<le> 1 \<and>
          1 + eccentricity (bs ! i) * cos (orbit_nu (bs ! i) (angle (bs ! i))) \<noteq> 0 \<and>
          x (bs ! i) = x (bs ! p)
            + orbit_r (bs ! i) (angle (bs ! i)) * cos (orbit_nu (bs ! i) (angle (bs ! i))) \<and>
          y (bs ! i) = y (bs ! p)
            + orbit_r (bs ! i) (angle (bs ! i)) * sin (orbit_nu (bs ! i) (angle (bs ! i))))"

definition placed :: "CelestialBody list \<Rightarrow> bool" where
  "placed bs \<longleftrightarrow> (\<forall>i \<in> {0..<length bs}. placed_at bs i)"


text \<open>
  The shape of a scene built by the three constructors: a parent is created before its
  children, so it comes earlier in the list, and a body without a parent has speed \<open>0\<close>.
\<close>

definition parents_first :: "CelestialBody list \<Rightarrow> bool" where
  "parents_first bs \<longleftrightarrow>
     (\<forall>i \<in> {0..<length bs}.
        case parent (bs ! i) of None \<Rightarrow> orbit_speed (bs ! i) = 0 | Some p \<Rightarrow> p < i)"

text \<open>
  The validity of the orbit cache of a body for a camera, in the words of the
  specification: a surface has been built, the zoom is within \<open>0.01\<close> of the cached zoom,
  the viewport is the cached one, and the pan is within \<open>1\<close> of the cached pan on both
  axes.
\<close>

definition cache_valid :: "CelestialBody \<Rightarrow> real \<Rightarrow> real \<Rightarrow> real \<Rightarrow> int \<Rightarrow> int \<Rightarrow> bool" where
  "cache_valid b zoom view_x view_y width height \<longleftrightarrow>
     orbit_surface b \<noteq> None \<and> \<bar>zoom - last_zoom b\<bar> < 1 / 100 \<and>
     (width, height) = (last_width b, last_height b) \<and>
     \<bar>view_x - last_view_x b\<bar> < 1 \<and> \<bar>view_y - last_view_y b\<bar> < 1"

text \<open>The number of surfaces a list of pygame calls creates.\<close>

fun surfaces_created :: "pygame_call list \<Rightarrow> nat" where
  "surfaces_created [] = 0"
| "surfaces_created (Surface_new w h # cs) = Suc (surfaces_created cs)"
| "surfaces_created (c # cs) = surfaces_created cs"

text \<open>
  The contract on orbital elements that keeps the solve from raising: every body with a
  parent has an eccentricity strictly between \<open>- 1\<close> and \<open>1\<close>.
\<close>

definition elements_ok :: "CelestialBody list \<Rightarrow> bool" where
  "elements_ok bs \<longleftrightarrow>
     (\<forall>i \<in> {0..<length bs}.
        parent (bs ! i) \<noteq> None \<longrightarrow> - 1 < eccentricity (bs ! i) \<and> eccentricity (bs ! i) < 1)"

section \<open>Example scenes\<close>

text \<open>
  A star of radius 5 at the origin with one circular planet, \<open>a = 100\<close>, \<open>e = 0\<close>, a quarter
  turn per tick, created at mean anomaly \<open>pi / 2\<close>; and the same star with one eccentric
  planet, \<open>e = 1 / 2\<close>.
\<close>

definition demo :: SolarSystem where
  "demo = fst (add_planet (fst (add_star SolarSystem_init 0 0 5 ''Sun'' 0)) 0
                 100 3 (pi / 2) 0 ''Earth'' 0 (pi / 2))"

definition demo_eccentric :: SolarSystem where
  "demo_eccentric = fst (add_planet (fst (add_star SolarSystem_init 0 0 5 ''Sun'' 0)) 0
                 100 3 (pi / 2) (1 / 2) ''Comet'' 0 0)"

text \<open>
  A star named Sol with one planet of radius 10 that is itself named Sun.
\<close>

definition demo_sun_planet :: SolarSystem where
  "demo_sun_planet = fst (add_planet (fst (add_star SolarSystem_init 0 0 5 ''Sol'' 0)) 0
                 100 10 (pi / 2) 0 ''Sun'' 0 0)"


text \<open>
  The bodies of the first scene, the planet holding an orbit surface built at zoom \<open>1\<close>
  in a \<open>1200 \<times> 800\<close> viewport panned to its centre.
\<close>

definition demo_cached :: "CelestialBody list" where
  "demo_cached = (bodies demo)[1 := (bodies demo ! 1)
     \<lparr>orbit_surface := Some \<lparr>surf_width = 202, surf_height = 202, surf_lines = [], surf_line_width = 2\<rparr>,
      last_zoom := 1, last_width := 1200, last_height := 800,
      last_view_x := 600, last_view_y := 400\<rparr>]"

section \<open>Frame lemmas for the update loop\<close>

lemma keeps_elements_refl: "keeps_elements b b"
  by (simp add: keeps_elements_def)

lemma keeps_elements_trans:
  "keeps_elements a b \<Longrightarrow> keeps_elements b c \<Longrightarrow> keeps_elements a c"
  by (simp add: keeps_elements_def)

lemma CelestialBody_update_shape:
  assumes "CelestialBody_update bs i = Inr bs'"
  shows "\<exists>a' x' y'. bs' = bs[i := (bs ! i)\<lparr>angle := a', x := x', y := y'\<rparr>]
     \<and> a' = py_mod (angle (bs ! i) + orbit_speed (bs ! i)) (2 * pi)
     \<and> (parent (bs ! i) = None \<longrightarrow> x' = x (bs ! i) \<and> y' = y (bs ! i))"
proof (cases "parent (bs ! i)")
  case None
  with assms have "bs' = bs[i := (bs ! i)\<lparr>angle := py_mod (angle (bs ! i) + orbit_speed (bs ! i)) (2 * pi)\<rparr>]"
    by (simp add: CelestialBody_update_def Let_def)
  then have "bs' = bs[i := (bs ! i)\<lparr>angle := py_mod (angle (bs ! i) + orbit_speed (bs ! i)) (2 * pi),
      x := x (bs ! i), y := y (bs ! i)\<rparr>]"
    by simp
  then show ?thesis by blast
next
  case (Some p)
  with assms show ?thesis
    by (auto simp: CelestialBody_update_def Let_def split: if_splits)
qed



lemma CelestialBody_update_body:
  assumes "CelestialBody_update bs i = Inr bs'"
  shows "\<exists>b1. bs' = bs[i := b1] \<and> keeps_elements (bs ! i) b1
     \<and> orbit_speed b1 = orbit_speed (bs ! i)
     \<and> angle b1 = py_mod (angle (bs ! i) + orbit_speed (bs ! i)) (2 * pi)
     \<and> (parent (bs ! i) = None \<longrightarrow> x b1 = x (bs ! i) \<and> y b1 = y (bs ! i))"
  using CelestialBody_update_shape [OF assms]
proof (elim exE conjE)
  fix a' x' y'
  assume h1: "bs' = bs[i := (bs ! i)\<lparr>angle := a', x := x', y := y'\<rparr>]"
    and h2: "a' = py_mod (angle (bs ! i) + orbit_speed (bs ! i)) (2 * pi)"
    and h3: "parent (bs ! i) = None \<longrightarrow> x' = x (bs ! i) \<and> y' = y (bs ! i)"
  define b1 where "b1 = (bs ! i)\<lparr>angle := a', x := x', y := y'\<rparr>"
  have 1: "bs' = bs[i := b1]" using h1 by (simp add: b1_def)
  have 2: "keeps_elements (bs ! i) b1" by (simp add: b1_def keeps_elements_def)
  have 3: "orbit_speed b1 = orbit_speed (bs ! i)" by (simp add: b1_def)
  have 4: "angle b1 = py_mod (angle (bs ! i) + orbit_speed (bs ! i)) (2 * pi)"
    using h2 by (simp add: b1_def)
  have 5: "parent (bs ! i) = None \<longrightarrow> x b1 = x (bs ! i) \<and> y b1 = y (bs ! i)"
    using h3 by (simp add: b1_def)
  from 1 2 3 4 5 show ?thesis by (intro exI [of _ b1] conjI)
qed

lemma update_loop_step:
  assumes "update_loop (i # js) tf bs = Inr bs'" and "i < length bs"
  shows "\<exists>b1. update_loop js tf (bs[i := b1]) = Inr bs' \<and> keeps_elements (bs ! i) b1
     \<and> (parent (bs ! i) \<noteq> None \<longrightarrow> orbit_speed b1 = base_orbit_speed (bs ! i) * tf)
     \<and> (parent (bs ! i) = None \<longrightarrow> x b1 = x (bs ! i) \<and> y b1 = y (bs ! i))"
proof (cases "parent (bs ! i)")
  case None
  from assms obtain bs2 where u: "CelestialBody_update bs i = Inr bs2"
    and r: "update_loop js tf bs2 = Inr bs'"
    by (auto simp: None split: sum.splits)
  from CelestialBody_update_body [OF u] obtain b1 where
    b: "bs2 = bs[i := b1] \<and> keeps_elements (bs ! i) b1
     \<and> orbit_speed b1 = orbit_speed (bs ! i)
     \<and> angle b1 = py_mod (angle (bs ! i) + orbit_speed (bs ! i)) (2 * pi)
     \<and> (parent (bs ! i) = None \<longrightarrow> x b1 = x (bs ! i) \<and> y b1 = y (bs ! i))" ..
  with r None show ?thesis by (intro exI [of _ b1]) simp
next
  case (Some p)
  define b0 where "b0 = (bs ! i)\<lparr>orbit_speed := base_orbit_speed (bs ! i) * tf\<rparr>"
  from assms obtain bs2 where u: "CelestialBody_update (bs[i := b0]) i = Inr bs2"
    and r: "update_loop js tf bs2 = Inr bs'"
    by (auto simp: Some b0_def split: sum.splits)
  have b0i: "bs[i := b0] ! i = b0" using assms(2) by simp
  from CelestialBody_update_body [OF u] obtain b1 where
    b: "bs2 = bs[i := b0, i := b1] \<and> keeps_elements (bs[i := b0] ! i) b1
     \<and> orbit_speed b1 = orbit_speed (bs[i := b0] ! i)
     \<and> angle b1 = py_mod (angle (bs[i := b0] ! i) + orbit_speed (bs[i := b0] ! i)) (2 * pi)
     \<and> (parent (bs[i := b0] ! i) = None \<longrightarrow> x b1 = x (bs[i := b0] ! i) \<and> y b1 = y (bs[i := b0] ! i))" ..
  have k0: "keeps_elements (bs ! i) b0" "orbit_speed b0 = base_orbit_speed (bs ! i) * tf"
    by (simp_all add: b0_def keeps_elements_def)
  from b have "bs2 = bs[i := b1]" by simp
  moreover from b k0 have "keeps_elements (bs ! i) b1"
    unfolding b0i using keeps_elements_trans by blast
  moreover from b k0 have "orbit_speed b1 = base_orbit_speed (bs ! i) * tf"
    unfolding b0i by simp
  ultimately show ?thesis using r Some by (intro exI [of _ b1]) simp
qed

lemma update_loop_step_any:
  assumes "update_loop (i # js) tf bs = Inr bs'"
  shows "\<exists>b1. update_loop js tf (bs[i := b1]) = Inr bs'"
proof (cases "parent (bs ! i)")
  case None
  from assms obtain bs2 where u: "CelestialBody_update bs i = Inr bs2"
    and r: "update_loop js tf bs2 = Inr bs'"
    by (auto simp: None split: sum.splits)
  from CelestialBody_update_shape [OF u] r show ?thesis by blast
next
  case (Some p)
  define b0 where "b0 = (bs ! i)\<lparr>orbit_speed := base_orbit_speed (bs ! i) * tf\<rparr>"
  from assms obtain bs2 where u: "CelestialBody_update (bs[i := b0]) i = Inr bs2"
    and r: "update_loop js tf bs2 = Inr bs'"
    by (auto simp: Some b0_def split: sum.splits)
  from CelestialBody_update_shape [OF u] obtain b1 where "bs2 = bs[i := b0, i := b1]"
    by blast
  then have "bs2 = bs[i := b1]" by simp
  with r show ?thesis by blast
qed

lemma update_loop_length:
  "update_loop js tf bs = Inr bs' \<Longrightarrow> length bs' = length bs"
proof (induction js arbitrary: bs)
  case Nil
  then show ?case by simp
next
  case (Cons i js)
  from update_loop_step_any [OF Cons.prems] obtain b1 where
    "update_loop js tf (bs[i := b1]) = Inr bs'" ..
  from Cons.IH [OF this] show ?case by simp
qed

lemma update_loop_other:
  "update_loop js tf bs = Inr bs' \<Longrightarrow> k \<notin> set js \<Longrightarrow> bs' ! k = bs ! k"
proof (induction js arbitrary: bs)
  case Nil
  then show ?case by simp
next
  case (Cons i js)
  from update_loop_step_any [OF Cons.prems(1)] obtain b1 where
    r: "update_loop js tf (bs[i := b1]) = Inr bs'" ..
  from Cons.prems(2) have "k \<noteq> i" "k \<notin> set js" by auto
  with Cons.IH [OF r] show ?case by simp
qed

lemma update_loop_keeps:
  assumes "update_loop js tf bs = Inr bs'" and "\<forall>j \<in> set js. j < length bs" and "k < length bs"
  shows "keeps_elements (bs ! k) (bs' ! k)
     \<and> (k \<in> set js \<and> parent (bs ! k) \<noteq> None \<longrightarrow> orbit_speed (bs' ! k) = base_orbit_speed (bs ! k) * tf)
     \<and> (parent (bs ! k) = None \<longrightarrow> x (bs' ! k) = x (bs ! k) \<and> y (bs' ! k) = y (bs ! k))"
  using assms
proof (induction js arbitrary: bs)
  case Nil
  then show ?case by (simp add: keeps_elements_refl)
next
  case (Cons i js)
  from Cons.prems have il: "i < length bs" by simp
  from update_loop_step [OF Cons.prems(1) il] obtain b1 where
    st: "update_loop js tf (bs[i := b1]) = Inr bs' \<and> keeps_elements (bs ! i) b1
     \<and> (parent (bs ! i) \<noteq> None \<longrightarrow> orbit_speed b1 = base_orbit_speed (bs ! i) * tf)
     \<and> (parent (bs ! i) = None \<longrightarrow> x b1 = x (bs ! i) \<and> y b1 = y (bs ! i))" ..
  from st have r: "update_loop js tf (bs[i := b1]) = Inr bs'" by (rule conjunct1)
  from st have k1: "keeps_elements (bs ! i) b1" by simp
  from st have s1: "parent (bs ! i) \<noteq> None \<longrightarrow> orbit_speed b1 = base_orbit_speed (bs ! i) * tf"
    by simp
  from st have p1: "parent (bs ! i) = None \<longrightarrow> x b1 = x (bs ! i) \<and> y b1 = y (bs ! i)"
    by simp
  let ?bs1 = "bs[i := b1]"
  have ke: "keeps_elements (bs ! k) (?bs1 ! k)"
    using k1 Cons.prems(3) by (cases "k = i") (simp_all add: keeps_elements_refl)
  have pe: "parent (bs ! k) = None \<longrightarrow> x (?bs1 ! k) = x (bs ! k) \<and> y (?bs1 ! k) = y (bs ! k)"
    using p1 Cons.prems(3) by (cases "k = i") simp_all
  have ih: "keeps_elements (?bs1 ! k) (bs' ! k)
     \<and> (k \<in> set js \<and> parent (?bs1 ! k) \<noteq> None \<longrightarrow> orbit_speed (bs' ! k) = base_orbit_speed (?bs1 ! k) * tf)
     \<and> (parent (?bs1 ! k) = None \<longrightarrow> x (bs' ! k) = x (?bs1 ! k) \<and> y (bs' ! k) = y (?bs1 ! k))"
    using Cons.IH [OF r] Cons.prems by simp
  have a: "keeps_elements (bs ! k) (bs' ! k)"
    using ke ih keeps_elements_trans by blast
  have c: "parent (bs ! k) = None \<longrightarrow> x (bs' ! k) = x (bs ! k) \<and> y (bs' ! k) = y (bs ! k)"
    using ke ih pe by (simp add: keeps_elements_def)
  have b: "k \<in> set (i # js) \<and> parent (bs ! k) \<noteq> None \<longrightarrow> orbit_speed (bs' ! k) = base_orbit_speed (bs ! k) * tf"
  proof (cases "k \<in> set js")
    case True
    with ih ke show ?thesis by (simp add: keeps_elements_def)
  next
    case False
    from update_loop_other [OF r False] have "bs' ! k = ?bs1 ! k" .
    with s1 False Cons.prems(3) show ?thesis by auto
  qed
  from a b c show ?case by blast
qed


section \<open>Evaluating the example scenes\<close>

lemma upt_0_2: "[0..<2] = [0, Suc 0]"
  by code_simp

lemma demo_bodies:
  "bodies demo =
     [new_body 0 0 5 0 0 0 0 0 None ''Sun'' 0 1,
      new_body 0 0 3 100 0 (pi / 2) (pi / 2) (pi / 2) (Some 0) ''Earth'' 0 1]"
  by (simp add: demo_def add_planet_def add_star_def SolarSystem_init_def Let_def new_body_def)

lemma demo_eccentric_bodies:
  "bodies demo_eccentric =
     [new_body 0 0 5 0 0 0 0 0 None ''Sun'' 0 1,
      new_body 0 0 3 100 (1 / 2) 0 (pi / 2) (pi / 2) (Some 0) ''Comet'' 0 (3 / 4)]"
  by (simp add: demo_eccentric_def add_planet_def add_star_def SolarSystem_init_def Let_def new_body_def)


lemma py_mod_0: "py_mod 0 (2 * pi) = 0"
  by (simp add: py_mod_def)

lemma py_mod_pi: "py_mod pi (2 * pi) = pi"
  by (simp add: py_mod_def)

lemma py_mod_2pi: "py_mod (2 * pi) (2 * pi) = 0"
  by (simp add: py_mod_def)

lemma kepler_circular: "kepler_solve M 0 = M"
  by (simp add: kepler_solve_def numeral_eq_Suc)

lemma true_anomaly_pi: "true_anomaly 0 pi = pi"
  by (simp add: true_anomaly_def atan2_def)

lemma true_anomaly_0: "true_anomaly 0 0 = 0"
  by (simp add: true_anomaly_def atan2_def)


lemma demo_update_3:
  "SolarSystem_update (demo\<lparr>time_factor := 3\<rparr>) = Inr (demo\<lparr>time_factor := 3, bodies :=
     [new_body 0 0 5 0 0 0 0 0 None ''Sun'' 0 1,
      new_body 100 0 3 100 0 0 (pi / 2) (3 * pi / 2) (Some 0) ''Earth'' 0 1]\<rparr>)"
  by (simp add: SolarSystem_update_def demo_bodies upt_0_2 CelestialBody_update_def Let_def
      new_body_def py_mod_0 py_mod_2pi kepler_circular true_anomaly_0)

lemma demo_sun_planet_bodies:
  "bodies demo_sun_planet =
     [new_body 0 0 5 0 0 0 0 0 None ''Sol'' 0 1,
      new_body 0 0 10 100 0 0 (pi / 2) (pi / 2) (Some 0) ''Sun'' 0 1]"
  by (simp add: demo_sun_planet_def add_planet_def add_star_def SolarSystem_init_def Let_def new_body_def)

section \<open>What an update leaves alone\<close>

lemma SolarSystem_update_keeps:
  assumes "SolarSystem_update s = Inr s'" and "k < length (bodies s)"
  shows "length (bodies s') = length (bodies s) \<and> time_factor s' = time_factor s
     \<and> keeps_elements (bodies s ! k) (bodies s' ! k)
     \<and> (parent (bodies s ! k) \<noteq> None \<longrightarrow>
          orbit_speed (bodies s' ! k) = base_orbit_speed (bodies s ! k) * time_factor s)
     \<and> (parent (bodies s ! k) = None \<longrightarrow>
          x (bodies s' ! k) = x (bodies s ! k) \<and> y (bodies s' ! k) = y (bodies s ! k))"
proof -
  from assms(1) obtain bs where
    l: "update_loop [0..<length (bodies s)] (time_factor s) (bodies s) = Inr bs"
    and s': "s' = s\<lparr>bodies := bs\<rparr>"
    by (auto simp: SolarSystem_update_def split: sum.splits)
  have "\<forall>j \<in> set [0..<length (bodies s)]. j < length (bodies s)" by simp
  from update_loop_keeps [OF l this assms(2)] update_loop_length [OF l] assms(2) s'
  show ?thesis by simp
qed

text \<open>
  C10. After \<^verbatim>\<open>SolarSystem.update\<close> returns, every body with a parent has
  \<open>orbit_speed = base_orbit_speed * time_factor\<close>, and the update has changed no body's
  base speed, semi-major axis, eccentricity, radius or parent (nor the time factor or the
  number of bodies): the speed is rescaled from the base speed at every tick.
\<close>

theorem update_rescales_from_base:
  assumes "SolarSystem_update s = Inr s'" and "k < length (bodies s)"
  shows "(parent (bodies s' ! k) \<noteq> None \<longrightarrow>
            orbit_speed (bodies s' ! k) = base_orbit_speed (bodies s' ! k) * time_factor s)
     \<and> base_orbit_speed (bodies s' ! k) = base_orbit_speed (bodies s ! k)
     \<and> semi_major_axis (bodies s' ! k) = semi_major_axis (bodies s ! k)
     \<and> eccentricity (bodies s' ! k) = eccentricity (bodies s ! k)
     \<and> radius (bodies s' ! k) = radius (bodies s ! k)
     \<and> parent (bodies s' ! k) = parent (bodies s ! k)
     \<and> length (bodies s') = length (bodies s)
     \<and> time_factor s' = time_factor s"
  using SolarSystem_update_keeps [OF assms] by (simp add: keeps_elements_def)

theorem update_rescales_from_base_witness:
  "\<exists>s'. SolarSystem_update (demo\<lparr>time_factor := 3\<rparr>) = Inr s'
     \<and> orbit_speed (bodies s' ! 1) = pi / 2 * 3 \<and> base_orbit_speed (bodies s' ! 1) = pi / 2
     \<and> semi_major_axis (bodies s' ! 1) = 100 \<and> parent (bodies s' ! 1) = Some 0"
proof -
  note u = demo_update_3
  have k: "1 < length (bodies (demo\<lparr>time_factor := 3\<rparr>))" by (simp add: demo_bodies)
  from update_rescales_from_base [OF u k] have "orbit_speed (bodies (demo\<lparr>time_factor := 3, bodies :=
     [new_body 0 0 5 0 0 0 0 0 None ''Sun'' 0 1,
      new_body 100 0 3 100 0 0 (pi / 2) (3 * pi / 2) (Some 0) ''Earth'' 0 1]\<rparr>) ! 1) = pi / 2 * 3"
    by (simp add: demo_bodies new_body_def)
  with u show ?thesis by (simp add: new_body_def)
qed

lemma ticks_keeps:
  "ticks tfs s = Inr s' \<Longrightarrow> k < length (bodies s) \<Longrightarrow>
     length (bodies s') = length (bodies s) \<and> keeps_elements (bodies s ! k) (bodies s' ! k)
     \<and> (parent (bodies s ! k) = None \<longrightarrow>
          x (bodies s' ! k) = x (bodies s ! k) \<and> y (bodies s' ! k) = y (bodies s ! k))"
proof (induction tfs arbitrary: s)
  case Nil
  then show ?case by (simp add: keeps_elements_refl)
next
  case (Cons tf tfs)
  from Cons.prems(1) obtain s1 where
    u: "SolarSystem_update (s\<lparr>time_factor := tf\<rparr>) = Inr s1" and r: "ticks tfs s1 = Inr s'"
    by (auto split: sum.splits)
  from Cons.prems(2) have k: "k < length (bodies (s\<lparr>time_factor := tf\<rparr>))" by simp
  note a = SolarSystem_update_keeps [OF u k]
  from a Cons.prems(2) have k1: "k < length (bodies s1)" by simp
  note b = Cons.IH [OF r k1]
  from a have pe: "parent (bodies s1 ! k) = parent (bodies s ! k)"
    by (simp add: keeps_elements_def)
  from a have "keeps_elements (bodies s ! k) (bodies s1 ! k)" by simp
  moreover from b have "keeps_elements (bodies s1 ! k) (bodies s' ! k)" by simp
  ultimately have "keeps_elements (bodies s ! k) (bodies s' ! k)"
    by (rule keeps_elements_trans)
  moreover from a b have "length (bodies s') = length (bodies s)" by simp
  moreover from a b pe have "parent (bodies s ! k) = None \<longrightarrow>
          x (bodies s' ! k) = x (bodies s ! k) \<and> y (bodies s' ! k) = y (bodies s ! k)"
    by simp
  ultimately show ?case by simp
qed

text \<open>
  C2. Over any run of updates, under any sequence of time factors, a body without a parent
  keeps its position \<open>(x, y)\<close> (and stays without a parent).
\<close>

theorem root_position_never_changes:
  assumes "ticks tfs s = Inr s'" and "k < length (bodies s)" and "parent (bodies s ! k) = None"
  shows "x (bodies s' ! k) = x (bodies s ! k) \<and> y (bodies s' ! k) = y (bodies s ! k)
     \<and> parent (bodies s' ! k) = None"
  using ticks_keeps [OF assms(1,2)] assms(3) by (simp add: keeps_elements_def)


theorem root_position_never_changes_witness:
  "\<exists>s'. ticks [3] demo = Inr s' \<and> x (bodies s' ! 0) = 0 \<and> y (bodies s' ! 0) = 0"
proof -
  obtain s' where t: "ticks [3] demo = Inr s'"
    by (simp add: demo_update_3)
  have k: "0 < length (bodies demo)" by (simp add: demo_bodies)
  have p: "parent (bodies demo ! 0) = None" by (simp add: demo_bodies new_body_def)
  from root_position_never_changes [OF t k p] have
    "ticks [3] demo = Inr s' \<and> x (bodies s' ! 0) = 0 \<and> y (bodies s' ! 0) = 0"
    using t by (simp add: demo_bodies new_body_def)
  then show ?thesis ..
qed

section \<open>The position an update computes\<close>

lemma CelestialBody_update_root:
  assumes "parent (bs ! i) = None"
  shows "CelestialBody_update bs i = Inr (bs[i := (bs ! i)\<lparr>angle := next_angle (bs ! i)\<rparr>])"
  using assms by (simp add: CelestialBody_update_def Let_def next_angle_def)

lemma CelestialBody_update_child:
  assumes "i < length bs" and "parent (bs ! i) = Some p" and "p \<noteq> i"
    and "- 1 \<le> eccentricity (bs ! i)" and "eccentricity (bs ! i) \<le> 1"
    and "1 + eccentricity (bs ! i) * cos (orbit_nu (bs ! i) (next_angle (bs ! i))) \<noteq> 0"
  shows "CelestialBody_update bs i =
     Inr (bs[i := (bs ! i)\<lparr>angle := next_angle (bs ! i),
        x := x (bs ! p) + orbit_r (bs ! i) (next_angle (bs ! i)) * cos (orbit_nu (bs ! i) (next_angle (bs ! i))),
        y := y (bs ! p) + orbit_r (bs ! i) (next_angle (bs ! i)) * sin (orbit_nu (bs ! i) (next_angle (bs ! i)))\<rparr>])"
proof -
  define M where "M = next_angle (bs ! i)"
  define nu where "nu = orbit_nu (bs ! i) M"
  define r where "r = orbit_r (bs ! i) M"
  have c1: "\<not> 1 + eccentricity (bs ! i) < 0" using assms(4) by simp
  have c2: "\<not> 1 - eccentricity (bs ! i) < 0" using assms(5) by simp
  have c3: "1 + eccentricity (bs ! i) * cos nu \<noteq> 0" using assms(6) by (simp add: nu_def M_def)
  have M: "py_mod (angle (bs ! i) + orbit_speed (bs ! i)) (2 * pi) = M"
    by (simp add: M_def next_angle_def)
  have nu: "true_anomaly (eccentricity (bs ! i)) (kepler_solve M (eccentricity (bs ! i))) = nu"
    by (simp add: nu_def orbit_nu_def)
  have r: "semi_major_axis (bs ! i) * one_minus_e2 (bs ! i) / (1 + eccentricity (bs ! i) * cos nu) = r"
    by (simp add: r_def orbit_r_def nu_def)
  have "CelestialBody_update bs i =
     Inr (bs[i := (bs ! i)\<lparr>angle := M, x := x (bs ! p) + r * cos nu, y := y (bs ! p) + r * sin nu\<rparr>])"
    unfolding CelestialBody_update_def Let_def
    using assms(1,2,3) c1 c2 c3 by (simp add: M nu r)
  then show ?thesis by (simp only: M_def nu_def r_def)
qed

lemma radius_bounds:
  fixes a e c :: real
  assumes "0 < a" and "0 \<le> e" and "e < 1" and "- 1 \<le> c" and "c \<le> 1"
  shows "a * (1 - e) \<le> a * (1 - e * e) / (1 + e * c)"
    and "a * (1 - e * e) / (1 + e * c) \<le> a * (1 + e)"
    and "0 < 1 + e * c"
proof -
  have me: "- e \<le> e * c" using mult_left_mono [OF assms(4) assms(2)] by simp
  have ec: "e * c \<le> e" using mult_left_mono [OF assms(5) assms(2)] by simp
  from me assms(3) show d: "0 < 1 + e * c" by linarith
  have f: "a * (1 - e) * (1 + e) = a * (1 - e * e)" by (simp add: algebra_simps)
  have g: "a * (1 + e) * (1 - e) = a * (1 - e * e)" by (simp add: algebra_simps)
  have p1: "0 \<le> a * (1 - e)" using assms by simp
  have p2: "0 \<le> a * (1 + e)" using assms by simp
  have "1 + e * c \<le> 1 + e" using ec by simp
  from mult_left_mono [OF this p1] have "a * (1 - e) * (1 + e * c) \<le> a * (1 - e * e)"
    unfolding f .
  then show "a * (1 - e) \<le> a * (1 - e * e) / (1 + e * c)"
    unfolding pos_le_divide_eq [OF d] .
  have "1 - e \<le> 1 + e * c" using me by simp
  from mult_left_mono [OF this p2] have "a * (1 - e * e) \<le> a * (1 + e) * (1 + e * c)"
    unfolding g .
  then show "a * (1 - e * e) / (1 + e * c) \<le> a * (1 + e)"
    unfolding pos_divide_le_eq [OF d] .
qed

lemma polar_distance:
  fixes r t :: real
  shows "sqrt ((r * cos t)\<^sup>2 + (r * sin t)\<^sup>2) = \<bar>r\<bar>"
proof -
  have "(r * cos t)\<^sup>2 + (r * sin t)\<^sup>2 = r\<^sup>2 * ((cos t)\<^sup>2 + (sin t)\<^sup>2)"
    by (simp only: power_mult_distrib distrib_left)
  also have "\<dots> = r\<^sup>2" by simp
  finally show ?thesis by simp
qed


text \<open>
  C1. For a body with a parent (other than itself), \<open>a > 0\<close>, \<open>0 \<le> e < 1\<close> and the
  precomputed \<open>one_minus_e2 = 1 - e * e\<close> that \<^verbatim>\<open>add_planet\<close> and \<^verbatim>\<open>add_moon\<close> store,
  \<^verbatim>\<open>CelestialBody.update\<close> returns, and afterwards the distance from the body to its
  parent is the radius it computed and lies between \<open>a * (1 - e)\<close> and \<open>a * (1 + e)\<close>,
  whatever the angle and the speed were before the call.
\<close>

theorem orbit_radius_within_bounds:
  assumes "i < length bs" and "parent (bs ! i) = Some p" and "p \<noteq> i"
    and "0 < semi_major_axis (bs ! i)"
    and "0 \<le> eccentricity (bs ! i)" and "eccentricity (bs ! i) < 1"
    and "one_minus_e2 (bs ! i) = 1 - eccentricity (bs ! i) * eccentricity (bs ! i)"
  shows "\<exists>bs'. CelestialBody_update bs i = Inr bs'
     \<and> distance_to_parent bs' i = orbit_r (bs ! i) (next_angle (bs ! i))
     \<and> semi_major_axis (bs ! i) * (1 - eccentricity (bs ! i)) \<le> distance_to_parent bs' i
     \<and> distance_to_parent bs' i \<le> semi_major_axis (bs ! i) * (1 + eccentricity (bs ! i))"
proof -
  define M where "M = next_angle (bs ! i)"
  define nu where "nu = orbit_nu (bs ! i) M"
  define r where "r = orbit_r (bs ! i) M"
  define a where "a = semi_major_axis (bs ! i)"
  define e where "e = eccentricity (bs ! i)"
  have c: "- 1 \<le> cos nu" "cos nu \<le> 1" by simp_all
  have ae: "0 < a" "0 \<le> e" "e < 1" using assms by (simp_all add: a_def e_def)
  note rb = radius_bounds [OF ae c]
  have r: "r = a * (1 - e * e) / (1 + e * cos nu)"
    using assms(7) by (simp add: r_def orbit_r_def nu_def a_def e_def)
  have lo: "a * (1 - e) \<le> r" and hi: "r \<le> a * (1 + e)" using rb(1,2) by (simp_all add: r)
  have "0 \<le> a * (1 - e)" using ae by simp
  with lo have r0: "0 \<le> r" by linarith
  have d: "1 + eccentricity (bs ! i) * cos (orbit_nu (bs ! i) (next_angle (bs ! i))) \<noteq> 0"
    using rb(3) by (simp add: e_def nu_def M_def)
  have e1: "- 1 \<le> eccentricity (bs ! i)" "eccentricity (bs ! i) \<le> 1"
    using assms(5,6) by simp_all
  define bs' where "bs' = bs[i := (bs ! i)\<lparr>angle := M, x := x (bs ! p) + r * cos nu,
      y := y (bs ! p) + r * sin nu\<rparr>]"
  have u: "CelestialBody_update bs i = Inr bs'"
    using CelestialBody_update_child [OF assms(1,2,3) e1 d]
    by (simp add: bs'_def M_def nu_def r_def)
  have bi: "bs' ! i = (bs ! i)\<lparr>angle := M, x := x (bs ! p) + r * cos nu,
      y := y (bs ! p) + r * sin nu\<rparr>"
    using assms(1) by (simp add: bs'_def)
  have bp: "bs' ! p = bs ! p" using assms(3) by (simp add: bs'_def)
  have "distance_to_parent bs' i = sqrt ((r * cos nu)\<^sup>2 + (r * sin nu)\<^sup>2)"
    using assms(2) by (simp add: distance_to_parent_def bi bp)
  then have dist: "distance_to_parent bs' i = r"
    using r0 by (simp only: polar_distance abs_of_nonneg)
  from u dist lo hi show ?thesis
    unfolding r_def M_def a_def e_def by (intro exI [of _ bs']) simp
qed


theorem orbit_radius_within_bounds_witness:
  "\<exists>bs'. CelestialBody_update (bodies demo_eccentric) 1 = Inr bs'
     \<and> 50 \<le> distance_to_parent bs' 1 \<and> distance_to_parent bs' 1 \<le> 150"
proof -
  have "\<exists>bs'. CelestialBody_update (bodies demo_eccentric) 1 = Inr bs'
     \<and> distance_to_parent bs' 1 = orbit_r (bodies demo_eccentric ! 1) (next_angle (bodies demo_eccentric ! 1))
     \<and> semi_major_axis (bodies demo_eccentric ! 1) * (1 - eccentricity (bodies demo_eccentric ! 1))
          \<le> distance_to_parent bs' 1
     \<and> distance_to_parent bs' 1
          \<le> semi_major_axis (bodies demo_eccentric ! 1) * (1 + eccentricity (bodies demo_eccentric ! 1))"
    by (rule orbit_radius_within_bounds [where p = 0])
       (simp_all add: demo_eccentric_bodies new_body_def)
  then obtain bs' where "CelestialBody_update (bodies demo_eccentric) 1 = Inr bs'
     \<and> distance_to_parent bs' 1 = orbit_r (bodies demo_eccentric ! 1) (next_angle (bodies demo_eccentric ! 1))
     \<and> semi_major_axis (bodies demo_eccentric ! 1) * (1 - eccentricity (bodies demo_eccentric ! 1))
          \<le> distance_to_parent bs' 1
     \<and> distance_to_parent bs' 1
          \<le> semi_major_axis (bodies demo_eccentric ! 1) * (1 + eccentricity (bodies demo_eccentric ! 1))" ..
  then have "CelestialBody_update (bodies demo_eccentric) 1 = Inr bs'
     \<and> 50 \<le> distance_to_parent bs' 1 \<and> distance_to_parent bs' 1 \<le> 150"
    by (simp add: demo_eccentric_bodies new_body_def)
  then show ?thesis ..
qed

lemma orbit_nu_circular_pi: "eccentricity b = 0 \<Longrightarrow> orbit_nu b pi = pi"
  by (simp add: orbit_nu_def kepler_circular true_anomaly_pi)

text \<open>
  C9. A planet with \<open>a = 100\<close>, \<open>e = 0\<close> (so \<open>one_minus_e2 = 1\<close>) whose mean anomaly after
  the advance is exactly \<open>pi\<close>: the update returns, the true anomaly is \<open>pi\<close>, the radius
  is \<open>100\<close>, and the planet is placed at the parent's position shifted by \<open>- 100\<close> along
  \<open>x\<close>; the parent is not moved.
\<close>

theorem circular_planet_at_pi:
  assumes "i < length bs" and "parent (bs ! i) = Some p" and "p \<noteq> i"
    and "semi_major_axis (bs ! i) = 100" and "eccentricity (bs ! i) = 0"
    and "one_minus_e2 (bs ! i) = 1" and "next_angle (bs ! i) = pi"
  shows "\<exists>bs'. CelestialBody_update bs i = Inr bs'
     \<and> angle (bs' ! i) = pi \<and> orbit_nu (bs ! i) pi = pi \<and> orbit_r (bs ! i) pi = 100
     \<and> x (bs' ! i) = x (bs ! p) - 100 \<and> y (bs' ! i) = y (bs ! p)
     \<and> x (bs' ! p) = x (bs ! p) \<and> y (bs' ! p) = y (bs ! p)"
proof -
  have nu: "orbit_nu (bs ! i) pi = pi" using assms(5) by (rule orbit_nu_circular_pi)
  have r: "orbit_r (bs ! i) pi = 100" using assms(4,5,6) by (simp add: orbit_r_def)
  define bs' where "bs' = bs[i := (bs ! i)\<lparr>angle := pi, x := x (bs ! p) - 100, y := y (bs ! p)\<rparr>]"
  have e1: "- 1 \<le> eccentricity (bs ! i)" "eccentricity (bs ! i) \<le> 1"
    and d: "1 + eccentricity (bs ! i) * cos (orbit_nu (bs ! i) (next_angle (bs ! i))) \<noteq> 0"
    using assms(5) by simp_all
  have u: "CelestialBody_update bs i = Inr bs'"
    using CelestialBody_update_child [OF assms(1,2,3) e1 d]
    by (simp add: assms(7) nu r bs'_def)
  have bi: "bs' ! i = (bs ! i)\<lparr>angle := pi, x := x (bs ! p) - 100, y := y (bs ! p)\<rparr>"
    using assms(1) by (simp add: bs'_def)
  have bp: "bs' ! p = bs ! p" using assms(3) by (simp add: bs'_def)
  from u nu r show ?thesis by (intro exI [of _ bs']) (simp add: bi bp)
qed

theorem circular_planet_at_pi_witness:
  "\<exists>bs'. CelestialBody_update (bodies demo) 1 = Inr bs'
     \<and> angle (bs' ! 1) = pi \<and> x (bs' ! 1) = - 100 \<and> y (bs' ! 1) = 0
     \<and> x (bs' ! 0) = 0 \<and> y (bs' ! 0) = 0"
proof -
  have "\<exists>bs'. CelestialBody_update (bodies demo) 1 = Inr bs'
     \<and> angle (bs' ! 1) = pi \<and> orbit_nu (bodies demo ! 1) pi = pi \<and> orbit_r (bodies demo ! 1) pi = 100
     \<and> x (bs' ! 1) = x (bodies demo ! 0) - 100 \<and> y (bs' ! 1) = y (bodies demo ! 0)
     \<and> x (bs' ! 0) = x (bodies demo ! 0) \<and> y (bs' ! 0) = y (bodies demo ! 0)"
    by (rule circular_planet_at_pi)
       (simp_all add: demo_bodies new_body_def next_angle_def py_mod_pi)
  then obtain bs' where "CelestialBody_update (bodies demo) 1 = Inr bs'
     \<and> angle (bs' ! 1) = pi \<and> orbit_nu (bodies demo ! 1) pi = pi \<and> orbit_r (bodies demo ! 1) pi = 100
     \<and> x (bs' ! 1) = x (bodies demo ! 0) - 100 \<and> y (bs' ! 1) = y (bodies demo ! 0)
     \<and> x (bs' ! 0) = x (bodies demo ! 0) \<and> y (bs' ! 0) = y (bodies demo ! 0)" ..
  then have "CelestialBody_update (bodies demo) 1 = Inr bs'
     \<and> angle (bs' ! 1) = pi \<and> x (bs' ! 1) = - 100 \<and> y (bs' ! 1) = 0
     \<and> x (bs' ! 0) = 0 \<and> y (bs' ! 0) = 0"
    by (simp add: demo_bodies new_body_def)
  then show ?thesis ..
qed


section \<open>Scene construction\<close>

lemma add_moon_result:
  "snd (add_moon s p sma rad speed ecc nm ms rnd) = length (bodies s)"
  "bodies (fst (add_moon s p sma rad speed ecc nm ms rnd)) ! length (bodies s) =
     new_body (x (bodies s ! p)) (y (bodies s ! p)) rad
       (max sma (if name (bodies s ! p) \<noteq> ''Sun'' then radius (bodies s ! p) * 2 else sma))
       ecc rnd speed speed (Some p) nm ms (1 - ecc * ecc)"
  by (simp_all add: add_moon_def Let_def)

text \<open>
  C4 (as amended). \<^verbatim>\<open>add_moon\<close> tests the parent's name, not its place in the tree: for
  a parent whose name is not \<open>Sun\<close>, a nominal semi-major axis below \<open>2 * parent.radius\<close>
  is raised to exactly \<open>2 * parent.radius\<close>, and one at or above it is kept.
\<close>

theorem add_moon_minimum_orbit:
  assumes "name (bodies s ! p) \<noteq> ''Sun''"
    and "add_moon s p sma rad speed ecc nm ms rnd = (s', k)"
  shows "(sma < 2 * radius (bodies s ! p) \<longrightarrow> semi_major_axis (bodies s' ! k) = 2 * radius (bodies s ! p))
     \<and> (2 * radius (bodies s ! p) \<le> sma \<longrightarrow> semi_major_axis (bodies s' ! k) = sma)
     \<and> parent (bodies s' ! k) = Some p"
proof -
  from assms(2) have k: "k = length (bodies s)" and s': "s' = fst (add_moon s p sma rad speed ecc nm ms rnd)"
    using add_moon_result(1) [of s p sma rad speed ecc nm ms rnd] by simp_all
  show ?thesis
    unfolding k s' add_moon_result(2) using assms(1) by (simp add: new_body_def max_def)
qed

theorem add_moon_minimum_orbit_witness:
  "semi_major_axis (bodies (fst (add_moon demo 1 2 1 0 0 ''Moon'' 0 0)) ! snd (add_moon demo 1 2 1 0 0 ''Moon'' 0 0)) = 6
   \<and> semi_major_axis (bodies (fst (add_moon demo 1 8 1 0 0 ''Moon'' 0 0)) ! snd (add_moon demo 1 8 1 0 0 ''Moon'' 0 0)) = 8"
proof -
  have n: "name (bodies demo ! 1) \<noteq> ''Sun''" by (simp add: demo_bodies new_body_def)
  have r: "radius (bodies demo ! 1) = 3" by (simp add: demo_bodies new_body_def)
  from add_moon_minimum_orbit [OF n, of 2 1 0 0 "''Moon''" 0 0] add_moon_minimum_orbit [OF n, of 8 1 0 0 "''Moon''" 0 0]
  show ?thesis by (simp add: demo_bodies new_body_def prod_eq_iff)
qed

theorem add_moon_non_root_named_sun_counterexample:
  "parent (bodies demo_sun_planet ! 1) = Some 0
   \<and> (5::real) < 2 * radius (bodies demo_sun_planet ! 1)
   \<and> semi_major_axis (bodies (fst (add_moon demo_sun_planet 1 5 1 0 0 ''Moon'' 0 0))
        ! snd (add_moon demo_sun_planet 1 5 1 0 0 ''Moon'' 0 0)) = 5
   \<and> 2 * radius (bodies demo_sun_planet ! 1) = 20"
  by (simp add: add_moon_def Let_def demo_sun_planet_bodies new_body_def)





section \<open>The camera transform\<close>

lemma zoom_in_range: "5 / 100 \<le> zoom_in z \<and> zoom_in z \<le> 5"
  by (simp add: zoom_in_def)

lemma zoom_out_range: "5 / 100 \<le> zoom_out z \<and> zoom_out z \<le> 5"
  by (simp add: zoom_out_def)

lemma mouse_motion_Inr:
  "zoom \<noteq> 0 \<Longrightarrow> mouse_motion zoom view last_mouse_pos pos =
     Inr (fst view - of_int (fst pos - fst last_mouse_pos) / zoom,
          snd view - of_int (snd pos - snd last_mouse_pos) / zoom)"
  by (simp add: mouse_motion_def py_truediv_def Let_def)

lemma drag_shift:
  fixes z a v d c :: real
  assumes "z \<noteq> 0"
  shows "(a - (v - d / z)) * z + c = (a - v) * z + c + d"
proof -
  have "(a - (v - d / z)) * z = (a - v) * z + d / z * z" by (simp add: algebra_simps)
  also have "d / z * z = d" using assms by simp
  finally show ?thesis by simp
qed

text \<open>
  C8 (as amended). The projection is the affine map
  \<open>((x - view_x) * zoom + floor (width / 2), (y - view_y) * zoom + floor (height / 2))\<close>:
  the offsets are the integer halves of the viewport. For every zoom in \<open>[0.05, 5]\<close>,
  dividing the screen offset from that centre by the zoom and adding the pan returns the
  world point exactly, and a drag by a screen delta, which subtracts the delta divided by
  the zoom from the pan, moves the projection of every body by exactly that delta.
\<close>

theorem camera_transform_round_trip:
  assumes "5 / 100 \<le> zoom" and "zoom \<le> 5"
  shows "scaled_pos b zoom view_x view_y width height =
       ((x b - view_x) * zoom + of_int \<lfloor>real_of_int width / 2\<rfloor>,
        (y b - view_y) * zoom + of_int \<lfloor>real_of_int height / 2\<rfloor>)
     \<and> view_x + (fst (scaled_pos b zoom view_x view_y width height) - of_int (width div 2)) / zoom = x b
     \<and> view_y + (snd (scaled_pos b zoom view_x view_y width height) - of_int (height div 2)) / zoom = y b
     \<and> (\<exists>view'. mouse_motion zoom (view_x, view_y) last_mouse_pos pos = Inr view'
          \<and> fst (scaled_pos b zoom (fst view') (snd view') width height)
              = fst (scaled_pos b zoom view_x view_y width height) + of_int (fst pos - fst last_mouse_pos)
          \<and> snd (scaled_pos b zoom (fst view') (snd view') width height)
              = snd (scaled_pos b zoom view_x view_y width height) + of_int (snd pos - snd last_mouse_pos))"
proof -
  from assms(1) have z: "zoom \<noteq> 0" by auto
  have f: "\<lfloor>real_of_int width / 2\<rfloor> = width div 2" "\<lfloor>real_of_int height / 2\<rfloor> = height div 2"
    using floor_divide_of_int_eq [of width 2, where ?'a = real]
      floor_divide_of_int_eq [of height 2, where ?'a = real] by simp_all
  have a: "scaled_pos b zoom view_x view_y width height =
       ((x b - view_x) * zoom + of_int \<lfloor>real_of_int width / 2\<rfloor>,
        (y b - view_y) * zoom + of_int \<lfloor>real_of_int height / 2\<rfloor>)"
    by (simp only: f scaled_pos_def)
  have b: "view_x + (fst (scaled_pos b zoom view_x view_y width height) - of_int (width div 2)) / zoom = x b"
    using z by (simp add: scaled_pos_def)
  have c: "view_y + (snd (scaled_pos b zoom view_x view_y width height) - of_int (height div 2)) / zoom = y b"
    using z by (simp add: scaled_pos_def)
  have d: "fst (scaled_pos b zoom (view_x - of_int (fst pos - fst last_mouse_pos) / zoom)
                 (view_y - of_int (snd pos - snd last_mouse_pos) / zoom) width height)
              = fst (scaled_pos b zoom view_x view_y width height) + of_int (fst pos - fst last_mouse_pos)"
    using drag_shift [OF z] by (simp add: scaled_pos_def)
  have e: "snd (scaled_pos b zoom (view_x - of_int (fst pos - fst last_mouse_pos) / zoom)
                 (view_y - of_int (snd pos - snd last_mouse_pos) / zoom) width height)
              = snd (scaled_pos b zoom view_x view_y width height) + of_int (snd pos - snd last_mouse_pos)"
    using drag_shift [OF z] by (simp add: scaled_pos_def)
  have m: "\<exists>view'. mouse_motion zoom (view_x, view_y) last_mouse_pos pos = Inr view'
          \<and> fst (scaled_pos b zoom (fst view') (snd view') width height)
              = fst (scaled_pos b zoom view_x view_y width height) + of_int (fst pos - fst last_mouse_pos)
          \<and> snd (scaled_pos b zoom (fst view') (snd view') width height)
              = snd (scaled_pos b zoom view_x view_y width height) + of_int (snd pos - snd last_mouse_pos)"
    using mouse_motion_Inr [OF z, of "(view_x, view_y)" last_mouse_pos pos] d e
    by (intro exI [of _ "(view_x - of_int (fst pos - fst last_mouse_pos) / zoom,
          view_y - of_int (snd pos - snd last_mouse_pos) / zoom)"]) simp
  from a b c m show ?thesis by (intro conjI)
qed

theorem camera_transform_round_trip_witness:
  "scaled_pos (bodies demo ! 1) (5 / 100) 600 400 1200 800 = (570, 380)
   \<and> 600 + (570 - 600) / (5 / 100) = (0::real)"
  using camera_transform_round_trip [of "5 / 100" "bodies demo ! 1" 600 400 1200 800 "(0, 0)" "(0, 0)"]
  by (simp add: demo_bodies new_body_def)

theorem camera_transform_odd_width_counterexample:
  "fst (scaled_pos (bodies demo ! 0) 1 0 0 801 600) = 400
   \<and> (x (bodies demo ! 0) - 0) * 1 + 801 / 2 \<noteq> (400::real)"
  by (simp add: scaled_pos_def demo_bodies new_body_def)


section \<open>A frame that is paused or at time factor zero\<close>












lemma CelestialBody_update_Inr_child:
  assumes "CelestialBody_update bs i = Inr bs'" and "parent (bs ! i) = Some p"
  shows "- 1 \<le> eccentricity (bs ! i)" and "eccentricity (bs ! i) \<le> 1"
    and "1 + eccentricity (bs ! i) * cos (orbit_nu (bs ! i) (next_angle (bs ! i))) \<noteq> 0"
  using assms
  by (simp_all add: CelestialBody_update_def Let_def next_angle_def orbit_nu_def split: if_splits)

lemma orbit_same_elements:
  assumes "eccentricity b' = eccentricity b" and "semi_major_axis b' = semi_major_axis b"
    and "one_minus_e2 b' = one_minus_e2 b"
  shows "orbit_nu b' M = orbit_nu b M" and "orbit_r b' M = orbit_r b M"
  using assms by (simp_all add: orbit_nu_def orbit_r_def)

lemma update_loop_step_places:
  assumes u: "update_loop (i # js) tf bs = Inr bs'" and il: "i < length bs"
    and pf: "case parent (bs ! i) of None \<Rightarrow> orbit_speed (bs ! i) = 0 | Some p \<Rightarrow> p < i"
  shows "\<exists>b1. update_loop js tf (bs[i := b1]) = Inr bs' \<and> parent b1 = parent (bs ! i)
     \<and> (parent (bs ! i) = None \<longrightarrow> orbit_speed b1 = orbit_speed (bs ! i))
     \<and> placed_at (bs[i := b1]) i"
proof (cases "parent (bs ! i)")
  case None
  define b1 where "b1 = (bs ! i)\<lparr>angle := next_angle (bs ! i)\<rparr>"
  from u None have "update_loop js tf (bs[i := b1]) = Inr bs'"
    by (simp add: CelestialBody_update_root b1_def)
  moreover have "parent b1 = parent (bs ! i)" "orbit_speed b1 = orbit_speed (bs ! i)"
    by (simp_all add: b1_def)
  moreover have "placed_at (bs[i := b1]) i"
    using il None by (simp add: placed_at_def b1_def)
  ultimately show ?thesis by (intro exI [of _ b1]) simp
next
  case (Some p)
  with pf have pi: "p \<noteq> i" by simp
  define b0 where "b0 = (bs ! i)\<lparr>orbit_speed := base_orbit_speed (bs ! i) * tf\<rparr>"
  define bs0 where "bs0 = bs[i := b0]"
  define M where "M = next_angle b0"
  define b1 where "b1 = b0\<lparr>angle := M, x := x (bs ! p) + orbit_r b0 M * cos (orbit_nu b0 M),
      y := y (bs ! p) + orbit_r b0 M * sin (orbit_nu b0 M)\<rparr>"
  have i0: "bs0 ! i = b0" using il by (simp add: bs0_def)
  have p0: "bs0 ! p = bs ! p" using pi by (simp add: bs0_def)
  have l0: "i < length bs0" using il by (simp add: bs0_def)
  have c1: "parent (bs0 ! i) = Some p" by (simp add: i0 b0_def Some)
  from u Some obtain bs2 where u0: "CelestialBody_update bs0 i = Inr bs2"
    and r: "update_loop js tf bs2 = Inr bs'"
    by (auto simp: b0_def bs0_def split: sum.splits)
  note ok = CelestialBody_update_Inr_child [OF u0 c1]
  from CelestialBody_update_child [OF l0 c1 pi ok] u0
  have "bs2 = bs0[i := b1]" by (simp add: i0 p0 b1_def M_def)
  then have bs2: "bs2 = bs[i := b1]" by (simp add: bs0_def)
  have f: "parent b1 = Some p" "angle b1 = M" "eccentricity b1 = eccentricity b0"
    "semi_major_axis b1 = semi_major_axis b0" "one_minus_e2 b1 = one_minus_e2 b0"
    "x b1 = x (bs ! p) + orbit_r b0 M * cos (orbit_nu b0 M)"
    "y b1 = y (bs ! p) + orbit_r b0 M * sin (orbit_nu b0 M)"
    by (simp_all add: b1_def b0_def Some)
  note o = orbit_same_elements [OF f(3,4,5)]
  have i1: "bs[i := b1] ! i = b1" using il by simp
  have p1: "bs[i := b1] ! p = bs ! p" using pi by simp
  have "placed_at (bs[i := b1]) i"
    unfolding placed_at_def i1 p1
    using ok pi by (simp add: f o i0 M_def)
  moreover have "update_loop js tf (bs[i := b1]) = Inr bs'" using r bs2 by simp
  ultimately show ?thesis using Some f(1) by (intro exI [of _ b1]) simp
qed

lemma placed_at_cong:
  assumes "bs1 ! k = bs ! k"
    and "\<And>q. parent (bs ! k) = Some q \<Longrightarrow> bs1 ! q = bs ! q"
  shows "placed_at bs1 k = placed_at bs k"
proof (cases "parent (bs ! k)")
  case None
  then show ?thesis by (simp add: placed_at_def assms(1))
next
  case (Some q)
  with assms(2) have "bs1 ! q = bs ! q" by simp
  with Some show ?thesis by (simp add: placed_at_def assms(1))
qed

lemma update_loop_places:
  assumes "update_loop js tf bs = Inr bs'" and "js = [m..<length bs]"
    and "parents_first bs" and "\<forall>k<m. placed_at bs k"
  shows "placed bs' \<and> parents_first bs'"
  using assms
proof (induction js arbitrary: m bs)
  case Nil
  from Nil.prems(2) have "[m..<length bs] = []" by (rule sym)
  then have "length bs \<le> m" by auto
  moreover from Nil.prems(1) have "bs' = bs" by simp
  ultimately show ?case using Nil.prems(3,4) by (simp add: placed_def)
next
  case (Cons i js)
  from Cons.prems(2) have "[m..<length bs] = i # js" by (rule sym)
  then have im: "i = m" and ml: "m < length bs" and js: "js = [Suc m..<length bs]"
    by (auto simp: upt_eq_Cons_conv)
  from Cons.prems(3) ml have pf: "case parent (bs ! m) of None \<Rightarrow> orbit_speed (bs ! m) = 0 | Some p \<Rightarrow> p < m"
    by (simp add: parents_first_def)
  from update_loop_step_places [OF Cons.prems(1) [unfolded im] ml pf] obtain b1 where
    st: "update_loop js tf (bs[m := b1]) = Inr bs' \<and> parent b1 = parent (bs ! m)
     \<and> (parent (bs ! m) = None \<longrightarrow> orbit_speed b1 = orbit_speed (bs ! m))
     \<and> placed_at (bs[m := b1]) m" ..
  let ?bs1 = "bs[m := b1]"
  from st have r: "update_loop js tf ?bs1 = Inr bs'" by (rule conjunct1)
  have js1: "js = [Suc m..<length ?bs1]" using js by simp
  have pf1: "parents_first ?bs1"
    unfolding parents_first_def
  proof
    fix k assume "k \<in> {0..<length ?bs1}"
    then have k: "k \<in> {0..<length bs}" by simp
    with Cons.prems(3) have pk: "case parent (bs ! k) of None \<Rightarrow> orbit_speed (bs ! k) = 0 | Some p \<Rightarrow> p < k"
      by (simp add: parents_first_def)
    show "case parent (?bs1 ! k) of None \<Rightarrow> orbit_speed (?bs1 ! k) = 0 | Some p \<Rightarrow> p < k"
    proof (cases "k = m")
      case True
      with st pk ml show ?thesis by (cases "parent (bs ! m)") (simp_all split: option.splits)
    next
      case False
      then have e: "?bs1 ! k = bs ! k" by simp
      show ?thesis unfolding e by (rule pk)
    qed
  qed
  have s1: "\<forall>k<Suc m. placed_at ?bs1 k"
  proof (intro allI impI)
    fix k assume "k < Suc m"
    show "placed_at ?bs1 k"
    proof (cases "k = m")
      case True
      with st show ?thesis by simp
    next
      case False
      with \<open>k < Suc m\<close> have km: "k < m" by simp
      with ml have "k \<in> {0..<length bs}" by simp
      with Cons.prems(3) have pk: "case parent (bs ! k) of None \<Rightarrow> orbit_speed (bs ! k) = 0 | Some p \<Rightarrow> p < k"
        by (simp add: parents_first_def)
      have "placed_at ?bs1 k = placed_at bs k"
      proof (rule placed_at_cong)
        show "?bs1 ! k = bs ! k" using False by simp
        fix q assume "parent (bs ! k) = Some q"
        with pk km have "q \<noteq> m" by simp
        then show "?bs1 ! q = bs ! q" by simp
      qed
      with Cons.prems(4) km show ?thesis by simp
    qed
  qed
  from Cons.IH [OF r js1 pf1 s1] show ?case .
qed

lemma SolarSystem_update_places:
  assumes "SolarSystem_update s = Inr s'" and "parents_first (bodies s)"
  shows "placed (bodies s') \<and> parents_first (bodies s')"
proof -
  from assms(1) obtain bs where
    l: "update_loop [0..<length (bodies s)] (time_factor s) (bodies s) = Inr bs"
    and s': "s' = s\<lparr>bodies := bs\<rparr>"
    by (auto simp: SolarSystem_update_def split: sum.splits)
  have "\<forall>k<0. placed_at (bodies s) k" by simp
  from update_loop_places [OF l refl assms(2) this] s' show ?thesis by simp
qed




lemma parents_first_add_moon:
  assumes "parents_first (bodies s)" and "p < length (bodies s)"
  shows "parents_first (bodies (fst (add_moon s p sma rad speed ecc nm ms rnd)))"
  unfolding parents_first_def
proof
  fix i assume i: "i \<in> {0..<length (bodies (fst (add_moon s p sma rad speed ecc nm ms rnd)))}"
  let ?bs = "bodies (fst (add_moon s p sma rad speed ecc nm ms rnd))"
  show "case parent (?bs ! i) of None \<Rightarrow> orbit_speed (?bs ! i) = 0 | Some q \<Rightarrow> q < i"
  proof (cases "i < length (bodies s)")
    case True
    then have e: "?bs ! i = bodies s ! i" by (simp add: add_moon_def Let_def nth_append)
    from assms True show ?thesis unfolding e by (simp add: parents_first_def)
  next
    case False
    with i have il: "i = length (bodies s)" by (simp add: add_moon_def Let_def)
    then have e: "parent (?bs ! i) = Some p"
      by (simp add: add_moon_def Let_def new_body_def)
    show ?thesis unfolding e using assms(2) il by simp
  qed
qed









section \<open>Every tick keeps a body on its ellipse\<close>

text \<open>
  \<^verbatim>\<open>add_planet\<close> and \<^verbatim>\<open>add_moon\<close> store \<open>1 - e * e\<close> in \<open>one_minus_e2\<close>, and no update
  changes it.
\<close>

lemma constructors_store_one_minus_e2:
  "one_minus_e2 (bodies (fst (add_planet s p sma rad speed ecc nm ms rnd)) ! length (bodies s))
     = 1 - ecc * ecc"
  "eccentricity (bodies (fst (add_planet s p sma rad speed ecc nm ms rnd)) ! length (bodies s)) = ecc"
  "one_minus_e2 (bodies (fst (add_moon s p sma rad speed ecc nm ms rnd)) ! length (bodies s))
     = 1 - ecc * ecc"
  "eccentricity (bodies (fst (add_moon s p sma rad speed ecc nm ms rnd)) ! length (bodies s)) = ecc"
  by (simp_all add: add_planet_def add_moon_def Let_def new_body_def)

text \<open>
  The bound of C1 at the level of the scene: after \<^verbatim>\<open>SolarSystem.update\<close> has returned on
  a scene whose parents come before their children, every child with valid elements is
  within \<open>[a * (1 - e), a * (1 + e)]\<close> of where its parent is now.
\<close>

lemma every_tick_within_bounds:
  assumes u: "SolarSystem_update s = Inr s'" and pf: "parents_first (bodies s)"
    and k: "k < length (bodies s)" and par: "parent (bodies s ! k) = Some p"
    and a: "0 < semi_major_axis (bodies s ! k)"
    and e: "0 \<le> eccentricity (bodies s ! k)" "eccentricity (bodies s ! k) < 1"
    and o: "one_minus_e2 (bodies s ! k) = 1 - eccentricity (bodies s ! k) * eccentricity (bodies s ! k)"
  shows "semi_major_axis (bodies s ! k) * (1 - eccentricity (bodies s ! k)) \<le> distance_to_parent (bodies s') k
     \<and> distance_to_parent (bodies s') k \<le> semi_major_axis (bodies s ! k) * (1 + eccentricity (bodies s ! k))"
proof -
  let ?b = "bodies s ! k" and ?b' = "bodies s' ! k"
  note ke = SolarSystem_update_keeps [OF u k]
  then have l: "length (bodies s') = length (bodies s)"
    and el: "parent ?b' = Some p" "semi_major_axis ?b' = semi_major_axis ?b"
      "eccentricity ?b' = eccentricity ?b" "one_minus_e2 ?b' = one_minus_e2 ?b"
    by (simp_all add: keeps_elements_def par)
  from SolarSystem_update_places [OF u pf] k l have st: "placed_at (bodies s') k"
    by (simp add: placed_def)
  define nu where "nu = orbit_nu ?b' (angle ?b')"
  define r where "r = orbit_r ?b' (angle ?b')"
  from st el(1) have px: "x ?b' - x (bodies s' ! p) = r * cos nu"
    and py: "y ?b' - y (bodies s' ! p) = r * sin nu"
    by (simp_all add: placed_at_def nu_def r_def)
  have c: "- 1 \<le> cos nu" "cos nu \<le> 1" by simp_all
  note rb = radius_bounds [OF a e c]
  have rr: "r = semi_major_axis ?b * (1 - eccentricity ?b * eccentricity ?b)
      / (1 + eccentricity ?b * cos nu)"
    by (simp add: r_def orbit_r_def nu_def el o)
  have lo: "semi_major_axis ?b * (1 - eccentricity ?b) \<le> r"
    and hi: "r \<le> semi_major_axis ?b * (1 + eccentricity ?b)"
    using rb(1,2) by (simp_all add: rr)
  have "0 \<le> semi_major_axis ?b * (1 - eccentricity ?b)" using a e by simp
  with lo have r0: "0 \<le> r" by linarith
  have "distance_to_parent (bodies s') k = sqrt ((r * cos nu)\<^sup>2 + (r * sin nu)\<^sup>2)"
    by (simp add: distance_to_parent_def el(1) px py)
  then have "distance_to_parent (bodies s') k = r"
    using r0 by (simp only: polar_distance abs_of_nonneg)
  with lo hi show ?thesis by simp
qed


section \<open>The orbit surface cache\<close>

lemma py_min_Inr: "vs \<noteq> [] \<Longrightarrow> \<exists>m. py_min vs = Inr m"
  by (cases vs) (simp_all add: py_min_def)

lemma py_max_Inr: "vs \<noteq> [] \<Longrightarrow> \<exists>m. py_max vs = Inr m"
  by (cases vs) (simp_all add: py_max_def)

lemma orbit_samples_nonempty: "orbit_samples a b \<noteq> []"
  by (simp add: orbit_samples_def)

lemma rebuild_orbit_surface_Inr:
  assumes "rebuild_orbit_surface bs i p zoom view_x view_y width height = Inr (bs', calls)"
    and "i < length bs"
  shows "length bs' = length bs" and "\<forall>j. j \<noteq> i \<longrightarrow> bs' ! j = bs ! j"
    and "orbit_surface (bs' ! i) \<noteq> None" and "orbit_rect (bs' ! i) \<noteq> None"
    and "last_zoom (bs' ! i) = zoom" and "last_width (bs' ! i) = width"
    and "last_height (bs' ! i) = height" and "last_view_x (bs' ! i) = view_x"
    and "last_view_y (bs' ! i) = view_y" and "surfaces_created calls = 1"
    and "angle (bs' ! i) = angle (bs ! i)" and "x (bs' ! i) = x (bs ! i)"
    and "y (bs' ! i) = y (bs ! i)" and "parent (bs' ! i) = parent (bs ! i)"
  using assms
  by (auto simp: rebuild_orbit_surface_def Let_def bind_err_def split: if_splits sum.splits)


lemma bind_err_Inr_ex:
  assumes "\<exists>v. m = Inr v" and "\<And>v. \<exists>r. f v = Inr r"
  shows "\<exists>r. bind_err m f = Inr r"
  using assms by (auto simp: bind_err_def)

lemma rebuild_orbit_surface_total:
  assumes "0 \<le> one_minus_e2 (bs ! i)"
  shows "\<exists>r. rebuild_orbit_surface bs i p zoom view_x view_y width height = Inr r"
proof -
  from assms have n: "\<not> one_minus_e2 (bs ! i) < 0" by simp
  show ?thesis
    unfolding rebuild_orbit_surface_def Let_def
    apply (simp add: n del: split_paired_Ex split del: if_split)
    apply (intro bind_err_Inr_ex py_min_Inr py_max_Inr)
            apply (simp_all add: orbit_samples_nonempty del: split_paired_Ex split del: if_split)
    done
qed

text \<open>
  C5. For a body with a parent (a star child in particular) whose \<open>one_minus_e2\<close> is not
  negative, \<^verbatim>\<open>update_orbit_surface\<close> rebuilds exactly when the cache is not valid. Under a
  valid cache the call changes nothing and makes no pygame call. Under an invalid cache
  it returns having created exactly one surface, the body holds a surface and the key
  \<open>(zoom, viewport, pan)\<close> of the call, the cache is valid for that camera, and no other
  body is touched.
\<close>

theorem orbit_cache_protocol:
  assumes "i < length bs" and "parent (bs ! i) = Some p" and "0 \<le> one_minus_e2 (bs ! i)"
  shows "(cache_valid (bs ! i) zoom view_x view_y width height \<longrightarrow>
            update_orbit_surface bs i zoom view_x view_y width height = Inr (bs, []))
     \<and> (\<not> cache_valid (bs ! i) zoom view_x view_y width height \<longrightarrow>
          (\<exists>bs' calls. update_orbit_surface bs i zoom view_x view_y width height = Inr (bs', calls)
             \<and> surfaces_created calls = 1
             \<and> orbit_surface (bs' ! i) \<noteq> None
             \<and> last_zoom (bs' ! i) = zoom
             \<and> (last_width (bs' ! i), last_height (bs' ! i)) = (width, height)
             \<and> (last_view_x (bs' ! i), last_view_y (bs' ! i)) = (view_x, view_y)
             \<and> cache_valid (bs' ! i) zoom view_x view_y width height
             \<and> (\<forall>j. j \<noteq> i \<longrightarrow> bs' ! j = bs ! j)))"
proof (intro conjI impI)
  assume "cache_valid (bs ! i) zoom view_x view_y width height"
  then show "update_orbit_surface bs i zoom view_x view_y width height = Inr (bs, [])"
    by (simp add: update_orbit_surface_def cache_valid_def assms(2))
next
  assume nv: "\<not> cache_valid (bs ! i) zoom view_x view_y width height"
  from rebuild_orbit_surface_total [OF assms(3)] obtain r where
    "rebuild_orbit_surface bs i p zoom view_x view_y width height = Inr r" ..
  then obtain bs' calls where
    r: "rebuild_orbit_surface bs i p zoom view_x view_y width height = Inr (bs', calls)"
    by (cases r) simp
  from nv have u: "update_orbit_surface bs i zoom view_x view_y width height = Inr (bs', calls)"
    unfolding r [symmetric] by (auto simp: update_orbit_surface_def cache_valid_def assms(2))
  note f = rebuild_orbit_surface_Inr [OF r assms(1)]
  have v: "cache_valid (bs' ! i) zoom view_x view_y width height"
    using f(3) by (simp add: cache_valid_def f(5,6,7,8,9))
  from u f v show "\<exists>bs' calls. update_orbit_surface bs i zoom view_x view_y width height = Inr (bs', calls)
             \<and> surfaces_created calls = 1
             \<and> orbit_surface (bs' ! i) \<noteq> None
             \<and> last_zoom (bs' ! i) = zoom
             \<and> (last_width (bs' ! i), last_height (bs' ! i)) = (width, height)
             \<and> (last_view_x (bs' ! i), last_view_y (bs' ! i)) = (view_x, view_y)
             \<and> cache_valid (bs' ! i) zoom view_x view_y width height
             \<and> (\<forall>j. j \<noteq> i \<longrightarrow> bs' ! j = bs ! j)"
    by (intro exI [of _ bs'] exI [of _ calls]) simp
qed

lemma demo_cached_planet:
  "demo_cached ! Suc 0 = (new_body 0 0 3 100 0 (pi / 2) (pi / 2) (pi / 2) (Some 0) ''Earth'' 0 1)
     \<lparr>orbit_surface := Some \<lparr>surf_width = 202, surf_height = 202, surf_lines = [], surf_line_width = 2\<rparr>,
      last_zoom := 1, last_width := 1200, last_height := 800,
      last_view_x := 600, last_view_y := 400\<rparr>"
  "length demo_cached = 2"
  by (simp_all add: demo_cached_def demo_bodies)

theorem orbit_cache_protocol_witness:
  "update_orbit_surface demo_cached 1 (1005 / 1000) (6005 / 10) 400 1200 800 = Inr (demo_cached, [])
   \<and> (\<exists>bs' calls. update_orbit_surface demo_cached 1 (1011 / 1000) (6005 / 10) 400 1200 800 = Inr (bs', calls)
         \<and> surfaces_created calls = 1 \<and> last_zoom (bs' ! 1) = 1011 / 1000 \<and> bs' ! 0 = demo_cached ! 0)"
proof -
  have h: "1 < length demo_cached" "parent (demo_cached ! 1) = Some 0" "0 \<le> one_minus_e2 (demo_cached ! 1)"
    by (simp_all add: demo_cached_planet new_body_def)
  have v: "cache_valid (demo_cached ! 1) (1005 / 1000) (6005 / 10) 400 1200 800"
    by (simp add: cache_valid_def demo_cached_planet new_body_def)
  have nv: "\<not> cache_valid (demo_cached ! 1) (1011 / 1000) (6005 / 10) 400 1200 800"
    by (simp add: cache_valid_def demo_cached_planet new_body_def)
  from orbit_cache_protocol [OF h, of "1005 / 1000" "6005 / 10" 400 1200 800] v
  have a: "update_orbit_surface demo_cached 1 (1005 / 1000) (6005 / 10) 400 1200 800 = Inr (demo_cached, [])"
    by blast
  from orbit_cache_protocol [OF h, of "1011 / 1000" "6005 / 10" 400 1200 800] nv
  have "\<exists>bs' calls. update_orbit_surface demo_cached 1 (1011 / 1000) (6005 / 10) 400 1200 800 = Inr (bs', calls)
         \<and> surfaces_created calls = 1 \<and> last_zoom (bs' ! 1) = 1011 / 1000 \<and> bs' ! 0 = demo_cached ! 0"
    by fastforce
  with a show ?thesis ..
qed


section \<open>An update returns\<close>

text \<open>
  With every eccentricity strictly between \<open>- 1\<close> and \<open>1\<close> neither square root nor the
  division raises, so \<^verbatim>\<open>SolarSystem.update\<close> returns.
\<close>

lemma denominator_positive:
  fixes e c :: real
  assumes "- 1 < e" and "e < 1" and "- 1 \<le> c" and "c \<le> 1"
  shows "0 < 1 + e * c"
proof -
  have "\<bar>e * c\<bar> = \<bar>e\<bar> * \<bar>c\<bar>" by (rule abs_mult)
  also have "\<dots> \<le> \<bar>e\<bar> * 1" using assms(3,4) by (intro mult_left_mono) auto
  also have "\<dots> < 1" using assms(1,2) by simp
  finally have "\<bar>e * c\<bar> < 1" .
  then show ?thesis by linarith
qed

lemma CelestialBody_update_returns:
  assumes "parent (bs ! i) \<noteq> None \<longrightarrow> - 1 < eccentricity (bs ! i) \<and> eccentricity (bs ! i) < 1"
  shows "\<exists>bs'. CelestialBody_update bs i = Inr bs'"
proof (cases "parent (bs ! i)")
  case None
  then show ?thesis by (simp add: CelestialBody_update_root)
next
  case (Some p)
  with assms have e: "- 1 < eccentricity (bs ! i)" "eccentricity (bs ! i) < 1" by simp_all
  have "0 < 1 + eccentricity (bs ! i) * cos (orbit_nu (bs ! i) (next_angle (bs ! i)))"
    using e by (intro denominator_positive) simp_all
  then have d: "1 + eccentricity (bs ! i) * cos (true_anomaly (eccentricity (bs ! i))
      (kepler_solve (py_mod (angle (bs ! i) + orbit_speed (bs ! i)) (2 * pi)) (eccentricity (bs ! i)))) \<noteq> 0"
    by (simp add: orbit_nu_def next_angle_def)
  from e have c: "\<not> 1 + eccentricity (bs ! i) < 0" "\<not> 1 - eccentricity (bs ! i) < 0" by simp_all
  show ?thesis
    unfolding CelestialBody_update_def Let_def using Some c d by simp
qed

lemma update_loop_returns:
  assumes "elements_ok bs" and "\<forall>j \<in> set js. j < length bs"
  shows "\<exists>bs'. update_loop js tf bs = Inr bs'"
  using assms
proof (induction js arbitrary: bs)
  case Nil
  show ?case by simp
next
  case (Cons i js)
  from Cons.prems(2) have il: "i < length bs" by simp
  define bs1 where "bs1 = (case parent (bs ! i) of None \<Rightarrow> bs
      | Some p \<Rightarrow> bs[i := (bs ! i)\<lparr>orbit_speed := base_orbit_speed (bs ! i) * tf\<rparr>])"
  have b1: "bs1 ! i = bs ! i \<or> bs1 ! i = (bs ! i)\<lparr>orbit_speed := base_orbit_speed (bs ! i) * tf\<rparr>"
    using il by (cases "parent (bs ! i)") (simp_all add: bs1_def)
  then have pe: "parent (bs1 ! i) = parent (bs ! i)" "eccentricity (bs1 ! i) = eccentricity (bs ! i)"
    by auto
  from Cons.prems(1) il have "parent (bs ! i) \<noteq> None \<longrightarrow> - 1 < eccentricity (bs ! i) \<and> eccentricity (bs ! i) < 1"
    by (simp add: elements_ok_def)
  then have "parent (bs1 ! i) \<noteq> None \<longrightarrow> - 1 < eccentricity (bs1 ! i) \<and> eccentricity (bs1 ! i) < 1"
    by (simp add: pe)
  from CelestialBody_update_returns [OF this] obtain bs2 where
    u: "CelestialBody_update bs1 i = Inr bs2" ..
  have step: "update_loop (i # js) tf bs = update_loop js tf bs2"
    using u by (simp add: bs1_def)
  from CelestialBody_update_body [OF u] obtain b2 where
    b2: "bs2 = bs1[i := b2] \<and> keeps_elements (bs1 ! i) b2
     \<and> orbit_speed b2 = orbit_speed (bs1 ! i)
     \<and> angle b2 = py_mod (angle (bs1 ! i) + orbit_speed (bs1 ! i)) (2 * pi)
     \<and> (parent (bs1 ! i) = None \<longrightarrow> x b2 = x (bs1 ! i) \<and> y b2 = y (bs1 ! i))" ..
  have l1: "length bs1 = length bs" by (cases "parent (bs ! i)") (simp_all add: bs1_def)
  have l2: "length bs2 = length bs" using b2 l1 by simp
  have o1: "\<And>k. k \<noteq> i \<Longrightarrow> bs1 ! k = bs ! k"
    by (cases "parent (bs ! i)") (simp_all add: bs1_def)
  have k2: "parent (bs2 ! k) = parent (bs ! k) \<and> eccentricity (bs2 ! k) = eccentricity (bs ! k)"
    if "k < length bs" for k
  proof (cases "k = i")
    case True
    with b2 il l1 have "bs2 ! k = b2" by simp
    with b2 pe True show ?thesis by (simp add: keeps_elements_def)
  next
    case False
    with b2 have "bs2 ! k = bs1 ! k" by simp
    with o1 [OF False] show ?thesis by simp
  qed
  have ok2: "elements_ok bs2"
    using Cons.prems(1) k2 by (simp add: elements_ok_def l2)
  from Cons.prems(2) l2 have "\<forall>j \<in> set js. j < length bs2" by simp
  from Cons.IH [OF ok2 this] step show ?case by simp
qed

lemma SolarSystem_update_returns:
  assumes "elements_ok (bodies s)"
  shows "\<exists>s'. SolarSystem_update s = Inr s'"
proof -
  have "\<forall>j \<in> set [0..<length (bodies s)]. j < length (bodies s)" by simp
  from update_loop_returns [OF assms this] obtain bs' where
    "update_loop [0..<length (bodies s)] (time_factor s) (bodies s) = Inr bs'" ..
  then show ?thesis by (simp add: SolarSystem_update_def)
qed

section \<open>The Kepler solve\<close>

lemma kepler_loop_funpow:
  "kepler_loop n M e E = ((\<lambda>E. M + e * sin E) ^^ n) E"
  by (induction n arbitrary: E) (simp_all add: funpow_Suc_right del: funpow.simps(2))

text \<open>
  C6. The solve starts at \<open>E = M\<close> and applies \<open>E \<leftarrow> M + e * sin E\<close> exactly five times,
  whatever the values are (there is no convergence test), so its result is the five-fold
  nesting below; it is a function of \<open>M\<close> and \<open>e\<close> alone.
\<close>

theorem kepler_solve_five_iterations:
  "kepler_solve M e = ((\<lambda>E. M + e * sin E) ^^ 5) M
   \<and> kepler_solve M e =
       M + e * sin (M + e * sin (M + e * sin (M + e * sin (M + e * sin M))))"
  by (simp add: kepler_solve_def kepler_loop_funpow numeral_eq_Suc)


end
